theory Spec2Isabelle
  imports Main "HOL-Library.AList"
begin

section \<open>Values crossing the store's boundary\<close>

text \<open>
  The document store (\<^verbatim>\<open>useDocumentStore\<close>) is a set of reactive cells and of functions
  over them. Every remote call is an \<^verbatim>\<open>await\<close> on the gateway client; its outcome is an
  input of the model (a reply), and each call that is dispatched is appended to a log,
  so that what the store sends is part of the state.

  The numbers of the store (page size and number, offsets, counts, sizes, statuses) are
  JavaScript numbers, that is doubles; the model holds the integer ones, and forms their
  sums and differences as doubles are added (section Numbers).

  An error value (\<^verbatim>\<open>error: any\<close>) is a string, as in
  \<^verbatim>\<open>handleDocumentError("Document not succcessfully updated")\<close>, or an object whose
  \<^verbatim>\<open>message\<close> property is a string or is missing, as a gateway error payload, a thrown
  \<^verbatim>\<open>Error\<close> or \<^verbatim>\<open>{ error: " Error deleting file from bucket" }\<close>. The handler is never
  given \<^verbatim>\<open>null\<close> or \<^verbatim>\<open>undefined\<close>: its argument is a literal, a payload that was tested
  truthy, or what a \<^verbatim>\<open>catch\<close> block caught, which the clients raise as \<^verbatim>\<open>Error\<close> objects.
\<close>

datatype js_error = ErrStr string | ErrObj "string option"

text \<open>\<^verbatim>\<open>typeof error === "object"\<close>\<close>

fun typeof_object :: "js_error \<Rightarrow> bool" where
  "typeof_object (ErrStr _) = False"
| "typeof_object (ErrObj _) = True"

text \<open>\<^verbatim>\<open>error.message\<close>: undefined on a string, the property on an object.\<close>

fun message :: "js_error \<Rightarrow> string option" where
  "message (ErrStr _) = None"
| "message (ErrObj m) = m"

text \<open>Truthiness of a string-or-undefined and of an error value; falsiness is \<^verbatim>\<open>!x\<close>.\<close>

fun truthy_string :: "string option \<Rightarrow> bool" where
  "truthy_string None = False"
| "truthy_string (Some v) = (v \<noteq> [])"

fun truthy_error :: "js_error option \<Rightarrow> bool" where
  "truthy_error None = False"
| "truthy_error (Some (ErrStr v)) = (v \<noteq> [])"
| "truthy_error (Some (ErrObj _)) = True"

text \<open>
  What an action returns: a value, or one of the sentinels \<^verbatim>\<open>true\<close>, \<^verbatim>\<open>false\<close>,
  \<^verbatim>\<open>null\<close>, \<^verbatim>\<open>undefined\<close> (a function whose \<^verbatim>\<open>catch\<close> block ran returns undefined).
\<close>

datatype 'a ret = Value 'a | RetTrue | RetFalse | RetNull | RetUndefined

text \<open>
  What an awaited gateway call gives: \<^verbatim>\<open>{ data, error }\<close> (each possibly null), or a
  rejection, which the enclosing \<^verbatim>\<open>try\<close> catches. A row-level update or delete is read
  for its \<^verbatim>\<open>status\<close> only; the error payload beside it is carried and never inspected.
\<close>

datatype 'a reply = Reply "'a option" "js_error option" | Throws js_error

datatype status_reply = Status int "js_error option" | StatusThrows js_error

datatype count_reply = Count "int option" "js_error option" | CountThrows js_error

section \<open>Numbers\<close>

text \<open>
  A sum or a difference of two doubles is the exact result rounded to the nearest double,
  a tie going to the even significand. A double has 53 significant bits: an integer of
  magnitude up to \<open>2 ^ 53\<close> is a double, a larger one is rounded to a multiple of
  \<open>2 ^ e\<close>, where \<open>e\<close> is the number of bits it has beyond 53. Magnitudes from
  \<open>2 ^ 1024\<close> on, where a double overflows, are outside the model.
\<close>

function exponent :: "int \<Rightarrow> nat" where
  "exponent n = (if n < 2 ^ 53 then 0 else Suc (exponent (n div 2)))"
  by pat_completeness auto
termination
  by (relation "measure nat") auto

declare exponent.simps [simp del]

definition round_magnitude :: "int \<Rightarrow> int" where
  "round_magnitude n =
     (let e = exponent n; q = n div 2 ^ e; r = n mod 2 ^ e
      in if 2 * r < 2 ^ e then q * 2 ^ e
         else if 2 * r = 2 ^ e \<and> even q then q * 2 ^ e
         else (q + 1) * 2 ^ e)"

definition double_of_int :: "int \<Rightarrow> int" where
  "double_of_int n = (if n < 0 then - round_magnitude (- n) else round_magnitude n)"

text \<open>\<^verbatim>\<open>a + b\<close> and \<^verbatim>\<open>a - b\<close> (and \<^verbatim>\<open>a++\<close>, which stores \<^verbatim>\<open>a + 1\<close>).\<close>

definition js_add :: "int \<Rightarrow> int \<Rightarrow> int" where
  "js_add a b = double_of_int (a + b)"

definition js_sub :: "int \<Rightarrow> int \<Rightarrow> int" where
  "js_sub a b = double_of_int (a - b)"

text \<open>An integer that is a double, and \<^verbatim>\<open>Number.isSafeInteger\<close>.\<close>

definition is_double :: "int \<Rightarrow> bool" where
  "is_double n = (double_of_int n = n)"

definition safe_integer :: "int \<Rightarrow> bool" where
  "safe_integer n = (\<bar>n\<bar> \<le> 2 ^ 53 - 1)"

section \<open>The data model\<close>

text \<open>
  Modelled from the spec: the entries of the sibling tag and category stores
  (\<^verbatim>\<open>tagStore.tags\<close>, \<^verbatim>\<open>categoryStore.categories\<close>), whose type declarations are not
  among the sources; the spec gives them as ordered sequences of \<^verbatim>\<open>{slug, name}\<close>.
\<close>

record label =
  slug :: string
  label_name :: string

text \<open>
  \<^verbatim>\<open>interface Document\<close>. The field \<^verbatim>\<open>id\<close> is \<open>doc_id\<close> here; the optional
  \<^verbatim>\<open>comments\<close> and the embedded \<^verbatim>\<open>user\<close> are never read by the store and are left out.
\<close>

record document =
  category :: "string option"
  created_at :: string
  details :: "string option"
  file_size :: "int option"
  file_type :: "string option"
  doc_id :: string
  is_draft :: bool
  is_public :: bool
  last_accessed_at :: "string option"
  name :: string
  tags :: "string list"
  updated_at :: string
  url :: string
  user_id :: string
  original_name :: "string option"

text \<open>\<^verbatim>\<open>interface DocumentForm\<close>; \<open>form_id = None\<close> is a form without the optional \<^verbatim>\<open>id\<close>.\<close>

record DocumentForm =
  form_id :: "string option"
  form_name :: string
  form_details :: "string option"
  form_url :: string
  form_is_draft :: bool
  form_is_public :: bool
  form_tags :: "string list"
  form_category :: "string option"

text \<open>The browser's \<^verbatim>\<open>File\<close>, as far as the store reads it: \<^verbatim>\<open>name\<close>, \<^verbatim>\<open>type\<close>, \<^verbatim>\<open>size\<close>.\<close>

record File =
  blob_name :: string
  blob_type :: string
  blob_size :: int

text \<open>\<^verbatim>\<open>interface FileDetails\<close>: every field optional.\<close>

record FileDetails =
  fd_file_size :: "int option"
  fd_file_type :: "string option"
  fd_original_name :: "string option"
  fd_url :: "string option"

datatype OrderByKeys = Created_at | Updated_at | Last_accessed_at | File_size | Is_public | Name

text \<open>\<^verbatim>\<open>Partial<Record<OrderByKeys, boolean>>\<close>, an object: its keys in insertion order.\<close>

type_synonym Order = "(OrderByKeys \<times> bool) list"

text \<open>
  Modelled from the spec: \<^verbatim>\<open>Filters\<close> is declared in \<^verbatim>\<open>components/documents/filters.vue\<close>,
  which is not among the sources; the spec calls it an externally defined predicate bag.
  The store only stores it and passes it on.
\<close>

type_synonym Filters = "(string \<times> string) list"

record page_range =
  range_from :: int
  range_to :: int

text \<open>\<^verbatim>\<open>interface DocumentParams\<close>; \<open>params_filters = None\<close> is the object without \<^verbatim>\<open>filters\<close>.\<close>

record DocumentParams =
  params_range :: page_range
  params_filters :: "Filters option"
  params_order :: Order

text \<open>The calls the store dispatches to the gateway, the service and the storage bucket.\<close>

datatype request =
    CountPublicDocuments
  | GetPublicDocuments Order page_range "Filters option"
  | GetMyDocuments
  | GetMyPrivateDocuments
  | GetMyDraftDocuments
  | GetDocumentsSharedWithMe
  | StorageUpload string File
  | StorageUpdate string File
  | StorageRemove "string list"
  | StoragePublicUrl string
  | WindowOpen string
  | InsertDocument DocumentForm File string
  | SelectDocument string
  | UpdateDocumentRow string DocumentForm FileDetails string
  | DeleteCollaborators string
  | InsertCollaborators "(string \<times> string) list"
  | DeleteDocumentRow string

datatype toast = ToastSuccess string string | ToastError string "string option"

text \<open>The cell \<^verbatim>\<open>error = ref<any>()\<close>: undefined at first, only ever assigned \<^verbatim>\<open>null\<close>.\<close>

datatype error_cell = ErrorUndefined | ErrorNull

text \<open>
  The store's cells, with what it reads of its neighbours (\<^verbatim>\<open>auth.user\<close>, of which only
  the id is read; the tag and category stores) and what it writes to them (the toasts,
  the console, the dispatched calls). \<open>raw_documents\<close> is the cell \<^verbatim>\<open>_documents\<close>;
  \<open>errors\<close> is an object, kept as its list of keys and values, a value being a string
  or undefined.
\<close>

record store =
  errors :: "(string \<times> string option) list"
  error :: error_cell
  loadingAll :: bool
  loadingSingle :: bool
  uploading :: bool
  raw_documents :: "document list"
  perPage :: int
  pageNumber :: int
  limitReached :: bool
  totalDocuments :: "int option"
  params :: DocumentParams
  loadingNextPage :: bool
  auth_user :: "string option"
  tagStore_tags :: "label list"
  categoryStore_categories :: "label list"
  toasts :: "toast list"
  console :: "js_error list"
  requests :: "request list"

text \<open>The state the setup function builds, given the neighbours' state; \<^verbatim>\<open>perPage.value - 1\<close>
  is \<open>10 - 1\<close>, which is exact.\<close>

definition init :: "string option \<Rightarrow> label list \<Rightarrow> label list \<Rightarrow> store" where
  "init user tgs cats =
     \<lparr> errors = [], error = ErrorUndefined, loadingAll = False, loadingSingle = False,
       uploading = False, raw_documents = [], perPage = 10, pageNumber = 1,
       limitReached = True, totalDocuments = None,
       params = \<lparr> params_range = \<lparr> range_from = 0, range_to = 10 - 1 \<rparr>,
                  params_filters = None, params_order = [(Created_at, False)] \<rparr>,
       loadingNextPage = False, auth_user = user, tagStore_tags = tgs,
       categoryStore_categories = cats, toasts = [], console = [], requests = [] \<rparr>"

definition dispatch :: "request \<Rightarrow> store \<Rightarrow> store" where
  "dispatch r s = s\<lparr> requests := requests s @ [r] \<rparr>"

section \<open>The label resolver and the derived view\<close>

text \<open>\<^verbatim>\<open>ls.find((l) => l.slug === t)?.name ?? t\<close>, for a tag slug and for a category
  (a slug or null; no entry's slug equals null).\<close>

definition resolve_tag :: "label list \<Rightarrow> string \<Rightarrow> string" where
  "resolve_tag ls t =
     (case find (\<lambda>l. slug l = t) ls of Some l \<Rightarrow> label_name l | None \<Rightarrow> t)"

definition resolve_category :: "label list \<Rightarrow> string option \<Rightarrow> string option" where
  "resolve_category ls c =
     (case find (\<lambda>l. Some (slug l) = c) ls of Some l \<Rightarrow> Some (label_name l) | None \<Rightarrow> c)"

definition updateDocumentTagsAndCategory :: "store \<Rightarrow> document \<Rightarrow> document" where
  "updateDocumentTagsAndCategory s d =
     d\<lparr> category := resolve_category (categoryStore_categories s) (category d),
        tags := map (\<lambda>t. resolve_tag (tagStore_tags s) t) (tags d) \<rparr>"

text \<open>The computed \<^verbatim>\<open>documents\<close>: the same expressions, written out a second time in the source.\<close>

definition documents :: "store \<Rightarrow> document list" where
  "documents s =
     map (\<lambda>d. d\<lparr> category := resolve_category (categoryStore_categories s) (category d),
                  tags := map (\<lambda>t. resolve_tag (tagStore_tags s) t) (tags d) \<rparr>)
       (raw_documents s)"

section \<open>Pagination\<close>

text \<open>
  The watcher on \<^verbatim>\<open>documents\<close>. The computed yields a fresh array whenever \<^verbatim>\<open>_documents\<close> is
  assigned, so the callback runs after every assignment, once the running synchronous
  code has ended. No action of the store reads \<^verbatim>\<open>limitReached\<close> or writes
  \<^verbatim>\<open>totalDocuments\<close> between an assignment and its next \<^verbatim>\<open>await\<close> or return, so the model
  runs the callback with the assignment (\<open>assign_documents\<close>).
\<close>

definition watch_documents :: "store \<Rightarrow> store" where
  "watch_documents s =
     (if Some (int (length (documents s))) = totalDocuments s
      then s\<lparr> limitReached := True \<rparr> else s)"

definition assign_documents :: "document list \<Rightarrow> store \<Rightarrow> store" where
  "assign_documents ds s = watch_documents (s\<lparr> raw_documents := ds \<rparr>)"

section \<open>Error capture\<close>

text \<open>
  \<^verbatim>\<open>handleDocumentError\<close>. An assignment to a property of an object replaces the value of
  an existing key in place and appends a new key otherwise, as \<open>AList.update\<close> does.
\<close>

definition handleDocumentError :: "js_error \<Rightarrow> store \<Rightarrow> store" where
  "handleDocumentError e s =
     (let s1 = (if typeof_object e \<or> truthy_string (message e)
                then s\<lparr> errors := AList.update ''email'' (message e) (errors s),
                        toasts := toasts s @ [ToastError ''Document error'' (message e)] \<rparr>
                else s)
      in s1\<lparr> console := console s1 @ [e] \<rparr>)"

text \<open>\<^verbatim>\<open>if (error) { handleDocumentError(error) }\<close>\<close>

fun report_if_error :: "js_error option \<Rightarrow> store \<Rightarrow> store" where
  "report_if_error None s = s"
| "report_if_error (Some e) s = (if truthy_error (Some e) then handleDocumentError e s else s)"

definition resetErrors :: "store \<Rightarrow> store" where
  "resetErrors s = s\<lparr> errors := [] \<rparr>"

definition resetDocuments :: "store \<Rightarrow> store" where
  "resetDocuments s = assign_documents [] s"

section \<open>Fetching the public catalogue\<close>

text \<open>
  \<^verbatim>\<open>getDocumentCount\<close> is called without \<^verbatim>\<open>await\<close>: the call is dispatched at once and its
  reply is handled whenever it arrives. A rejection is not caught and changes nothing.
\<close>

definition getDocumentCount_begin :: "store \<Rightarrow> store" where
  "getDocumentCount_begin s = dispatch CountPublicDocuments s"

definition getDocumentCount_end :: "count_reply \<Rightarrow> store \<Rightarrow> store" where
  "getDocumentCount_end r s =
     (case r of
        CountThrows e \<Rightarrow> s
      | Count count err \<Rightarrow>
          (let s1 = (if truthy_error err
                     then handleDocumentError (ErrStr ''Trouble getting document count'') s
                     else s)
           in (case count of
                 None \<Rightarrow> s1
               | Some c \<Rightarrow>
                   (if c = 0 then s1
                    else (let s2 = s1\<lparr> totalDocuments := Some c \<rparr>
                          in (if c > perPage s2 then s2\<lparr> limitReached := False \<rparr> else s2))))))"

text \<open>
  \<^verbatim>\<open>getDocuments\<close>, cut at its \<^verbatim>\<open>await\<close>: what runs before the page is requested, and what
  runs when the reply is there (with the \<^verbatim>\<open>catch\<close> and \<^verbatim>\<open>finally\<close> blocks).
\<close>

definition getDocuments_begin :: "store \<Rightarrow> store" where
  "getDocuments_begin s =
     (let s1 = s\<lparr> loadingAll := True \<rparr>;
          s2 = (if pageNumber s1 = 1 then getDocumentCount_begin s1 else s1);
          s3 = resetErrors s2
      in dispatch (GetPublicDocuments (params_order (params s3)) (params_range (params s3))
                     (params_filters (params s3))) s3)"

definition getDocuments_end :: "document list reply \<Rightarrow> store \<Rightarrow> store" where
  "getDocuments_end r s =
     (let s1 = (case r of
                  Throws e \<Rightarrow> handleDocumentError e s
                | Reply data err \<Rightarrow>
                    (let s2 = report_if_error err s
                     in (case data of
                           None \<Rightarrow> s2
                         | Some rows \<Rightarrow> assign_documents (raw_documents s2 @ rows) s2)))
      in s1\<lparr> loadingAll := False, loadingNextPage := False \<rparr>)"

definition getDocuments :: "document list reply \<Rightarrow> store \<Rightarrow> store" where
  "getDocuments r s = getDocuments_end r (getDocuments_begin s)"

text \<open>\<^verbatim>\<open>nextPage\<close>: up to the request of the page, and as a whole.\<close>

definition nextPage_begin :: "store \<Rightarrow> store" where
  "nextPage_begin s =
     (if limitReached s then s
      else (let s1 = s\<lparr> loadingNextPage := True \<rparr>;
                st = js_add (range_to (params_range (params s1))) 1;
                s2 = s1\<lparr> pageNumber := js_add (pageNumber s1) 1 \<rparr>;
                s3 = s2\<lparr> params := (params s2)\<lparr> params_range :=
                          \<lparr> range_from = st, range_to = js_add st (js_sub (perPage s2) 1) \<rparr> \<rparr> \<rparr>
            in getDocuments_begin s3))"

definition nextPage :: "document list reply \<Rightarrow> store \<Rightarrow> store" where
  "nextPage r s = (if limitReached s then s else getDocuments_end r (nextPage_begin s))"

section \<open>Fetching the user's documents\<close>

text \<open>The \<^verbatim>\<open>switch\<close> on the criteria; any other string takes the \<^verbatim>\<open>default\<close> branch.\<close>

definition criteria_request :: "string \<Rightarrow> request" where
  "criteria_request criteria =
     (if criteria = ''mine'' then GetMyDocuments
      else if criteria = ''private'' then GetMyPrivateDocuments
      else if criteria = ''drafts'' then GetMyDraftDocuments
      else if criteria = ''sharedWithMe'' then GetDocumentsSharedWithMe
      else GetMyDocuments)"

definition getUserDocuments ::
    "string \<Rightarrow> document list reply \<Rightarrow> store \<Rightarrow> document list ret \<times> store" where
  "getUserDocuments criteria r s =
     (let s1 = s\<lparr> loadingAll := True \<rparr>;
          s2 = assign_documents [] s1;
          s3 = resetErrors s2;
          s4 = dispatch (criteria_request criteria) s3;
          (res, s5) =
            (case r of
               Throws e \<Rightarrow> (RetUndefined, handleDocumentError e s4)
             | Reply data err \<Rightarrow>
                 (case err of
                    Some e \<Rightarrow>
                      (if truthy_error (Some e) then (RetNull, handleDocumentError e s4)
                       else (case data of
                               Some rows \<Rightarrow>
                                 (Value (map (updateDocumentTagsAndCategory s4) rows), s4)
                             | None \<Rightarrow> (RetNull, s4)))
                  | None \<Rightarrow>
                      (case data of
                         Some rows \<Rightarrow> (Value (map (updateDocumentTagsAndCategory s4) rows), s4)
                       | None \<Rightarrow> (RetNull, s4))))
      in (res, s5\<lparr> loadingAll := False \<rparr>))"

section \<open>Files\<close>

text \<open>
  \<^verbatim>\<open>uploadFile\<close>. \<^verbatim>\<open>generateSlug\<close> is imported from \<^verbatim>\<open>utils/generateSlug\<close>, which is not
  among the sources: it is the parameter \<open>gen\<close>. The reply's data is \<^verbatim>\<open>data.path\<close>.
\<close>

definition uploadFile ::
    "(string \<Rightarrow> string) \<Rightarrow> File option \<Rightarrow> string reply \<Rightarrow> store \<Rightarrow> string ret \<times> store" where
  "uploadFile gen file r s =
     (case file of
        None \<Rightarrow> (RetNull, s\<lparr> errors := AList.update ''document'' (Some ''No file selected'') (errors s) \<rparr>)
      | Some f \<Rightarrow>
          (let s1 = s\<lparr> uploading := True \<rparr>;
               s2 = dispatch (StorageUpload (''public/'' @ gen (blob_name f)) f) s1;
               (res, s3) =
                 (case r of
                    Throws e \<Rightarrow> (RetUndefined, handleDocumentError e s2)
                  | Reply data err \<Rightarrow>
                      (if truthy_error err then (RetNull, s2)
                       else (case data of
                               Some path \<Rightarrow> (Value path, s2)
                             | None \<Rightarrow> (RetUndefined, s2))))
           in (res, s3\<lparr> uploading := False \<rparr>)))"

definition updateFile :: "string \<Rightarrow> File \<Rightarrow> string reply \<Rightarrow> store \<Rightarrow> string ret \<times> store" where
  "updateFile u f r s =
     (let s1 = dispatch (StorageUpdate u f) s
      in (case r of
            Throws e \<Rightarrow> (RetUndefined, handleDocumentError e s1)
          | Reply data err \<Rightarrow>
              (case err of
                 Some e \<Rightarrow>
                   (if truthy_error (Some e) then (RetNull, handleDocumentError e s1)
                    else (case data of Some path \<Rightarrow> (Value path, s1) | None \<Rightarrow> (RetNull, s1)))
               | None \<Rightarrow>
                   (case data of Some path \<Rightarrow> (Value path, s1) | None \<Rightarrow> (RetNull, s1)))))"

definition deleteFile :: "string \<Rightarrow> string list reply \<Rightarrow> store \<Rightarrow> unit ret \<times> store" where
  "deleteFile path r s =
     (let s1 = dispatch (StorageRemove [path]) s
      in (case r of
            Throws e \<Rightarrow> (RetUndefined, handleDocumentError e s1)
          | Reply data err \<Rightarrow>
              (let s2 = report_if_error err s1
               in (case data of Some removed \<Rightarrow> (RetTrue, s2) | None \<Rightarrow> (RetFalse, s2)))))"

text \<open>
  The \<^verbatim>\<open>TypeError\<close> thrown when a property of \<^verbatim>\<open>undefined\<close> is read (\<^verbatim>\<open>data[0].id\<close> on an
  empty array, \<^verbatim>\<open>data.publicUrl\<close> on missing data); the text of its message is the engine's.
\<close>

definition type_error :: js_error where
  "type_error = ErrObj (Some ''TypeError'')"

text \<open>
  \<^verbatim>\<open>getDocumentPublicUrl\<close> asks the storage client without waiting; the reply's data is
  \<^verbatim>\<open>data.publicUrl\<close>, and reading it from missing data throws inside the \<^verbatim>\<open>try\<close>.
  \<^verbatim>\<open>openDocument\<close> opens the address in a window when it is truthy.
\<close>

definition getDocumentPublicUrl :: "string \<Rightarrow> string reply \<Rightarrow> store \<Rightarrow> string ret \<times> store" where
  "getDocumentPublicUrl fileUrl r s =
     (let s1 = dispatch (StoragePublicUrl fileUrl) s
      in (case r of
            Throws e \<Rightarrow> (RetUndefined, handleDocumentError e s1)
          | Reply data err \<Rightarrow>
              (case data of
                 Some publicUrl \<Rightarrow> (Value publicUrl, s1)
               | None \<Rightarrow> (RetUndefined, handleDocumentError type_error s1))))"

definition openDocument :: "string \<Rightarrow> string reply \<Rightarrow> store \<Rightarrow> store" where
  "openDocument path r s =
     (case getDocumentPublicUrl path r s of
        (Value fullPath, s1) \<Rightarrow> (if fullPath = [] then s1 else dispatch (WindowOpen fullPath) s1)
      | (other, s1) \<Rightarrow> s1)"

section \<open>Collaborators\<close>

text \<open>
  \<^verbatim>\<open>Array.prototype.findIndex\<close> (\<open>- 1\<close> when nothing matches) and
  \<^verbatim>\<open>Array.prototype.splice(start, 1)\<close>, with what it does for a negative or too large
  \<^verbatim>\<open>start\<close>.
\<close>

fun findIndex :: "('a \<Rightarrow> bool) \<Rightarrow> 'a list \<Rightarrow> int" where
  "findIndex P [] = - 1"
| "findIndex P (x # xs) =
     (if P x then 0 else (let i = findIndex P xs in if i < 0 then - 1 else i + 1))"

definition splice1 :: "int \<Rightarrow> 'a list \<Rightarrow> 'a list" where
  "splice1 start xs =
     (let n = int (length xs);
          k = (if start < 0 then max (n + start) 0 else min start n)
      in take (nat k) xs @ drop (nat k + 1) xs)"

text \<open>\<^verbatim>\<open>Array.from(new Set(xs))\<close>: a set keeps each value once, at its first insertion.\<close>

definition set_add :: "'a list \<Rightarrow> 'a \<Rightarrow> 'a list" where
  "set_add acc x = (if x \<in> set acc then acc else acc @ [x])"

definition array_from_set :: "'a list \<Rightarrow> 'a list" where
  "array_from_set xs = foldl set_add [] xs"

text \<open>
  \<^verbatim>\<open>insertCollaborators\<close>: the array after the removal of the acting user
  (\<^verbatim>\<open>// check if current user is present, // delete if so\<close>), the payload, the rest.
\<close>

definition remove_current_user :: "string option \<Rightarrow> string list \<Rightarrow> string list" where
  "remove_current_user user collaborators =
     (case user of
        None \<Rightarrow> collaborators
      | Some uid \<Rightarrow>
          (if uid \<in> set collaborators
           then splice1 (findIndex (\<lambda>c. c = uid) collaborators) collaborators
           else collaborators))"

definition insertCollaborators_payload ::
    "string option \<Rightarrow> string \<Rightarrow> string list \<Rightarrow> (string \<times> string) list" where
  "insertCollaborators_payload user documentId collaborators =
     map (\<lambda>user_id. (documentId, user_id))
       (array_from_set (remove_current_user user collaborators))"

definition insertCollaborators_begin :: "string \<Rightarrow> string list \<Rightarrow> store \<Rightarrow> store" where
  "insertCollaborators_begin documentId collaborators s =
     dispatch (InsertCollaborators
       (insertCollaborators_payload (auth_user s) documentId collaborators)) s"

definition insertCollaborators_end :: "unit reply \<Rightarrow> store \<Rightarrow> store" where
  "insertCollaborators_end r s =
     (case r of
        Throws e \<Rightarrow> handleDocumentError e s
      | Reply data err \<Rightarrow> report_if_error err s)"

definition insertCollaborators :: "string \<Rightarrow> string list \<Rightarrow> unit reply \<Rightarrow> store \<Rightarrow> store" where
  "insertCollaborators documentId collaborators r s =
     insertCollaborators_end r (insertCollaborators_begin documentId collaborators s)"

text \<open>
  \<^verbatim>\<open>updateCollaborators\<close> has no \<^verbatim>\<open>try\<close>: a rejection of its delete goes to the caller,
  here as \<open>Some e\<close> beside the state reached.
\<close>

definition updateCollaborators ::
    "string \<Rightarrow> string list \<Rightarrow> status_reply \<Rightarrow> unit reply \<Rightarrow> store \<Rightarrow> js_error option \<times> store" where
  "updateCollaborators documentId collaborators r_delete r_insert s =
     (let s1 = dispatch (DeleteCollaborators documentId) s
      in (case r_delete of
            StatusThrows e \<Rightarrow> (Some e, s1)
          | Status st err \<Rightarrow>
              (let s2 = (if st \<noteq> 204
                         then handleDocumentError (ErrStr ''Error removing collaborators ( 1 )'') s1
                         else s1)
               in (None, insertCollaborators documentId collaborators r_insert s2))))"

section \<open>Single documents\<close>

definition getDocument :: "string \<Rightarrow> document list reply \<Rightarrow> store \<Rightarrow> document ret \<times> store" where
  "getDocument i r s =
     (let s1 = s\<lparr> loadingSingle := True \<rparr>;
          s2 = resetErrors s1;
          s3 = dispatch (SelectDocument i) s2;
          (res, s4) =
            (case r of
               Throws e \<Rightarrow> (RetUndefined, handleDocumentError e s3)
             | Reply data err \<Rightarrow>
                 (let s5 = report_if_error err s3
                  in (case data of
                        Some (d # ds) \<Rightarrow> (Value d, s5)
                      | Some [] \<Rightarrow> (RetNull, s5)
                      | None \<Rightarrow> (RetNull, s5))))
      in (res, s4\<lparr> loadingSingle := False \<rparr>))"

text \<open>
  \<^verbatim>\<open>createDocument\<close>. Its call of \<^verbatim>\<open>insertCollaborators\<close> is not awaited: the insertion is
  dispatched, and its reply is handled later (\<open>insertCollaborators_end\<close>).
\<close>

definition createDocument ::
    "(string \<Rightarrow> string) \<Rightarrow> File option \<Rightarrow> DocumentForm \<Rightarrow> string list \<Rightarrow> string reply \<Rightarrow>
     document list reply \<Rightarrow> store \<Rightarrow> document list ret \<times> store" where
  "createDocument gen file form collaborators r_upload r_insert s =
     (let s0 = s\<lparr> loadingSingle := True \<rparr>;
          (res, s9) =
            (case file of
               None \<Rightarrow>
                 (RetFalse,
                  s0\<lparr> errors := AList.update ''document'' (Some ''Document not added.'') (errors s0) \<rparr>)
             | Some f \<Rightarrow>
                 (case uploadFile gen (Some f) r_upload s0 of
                    (Value path, s1) \<Rightarrow>
                      (if path = [] then (RetFalse, s1)
                       else (case auth_user s1 of
                               None \<Rightarrow> (RetFalse, s1)
                             | Some uid \<Rightarrow>
                                 (let s2 = dispatch (InsertDocument (form\<lparr> form_url := path \<rparr>) f uid) s1
                                  in (case r_insert of
                                        Throws e \<Rightarrow> (RetUndefined, handleDocumentError e s2)
                                      | Reply data err \<Rightarrow>
                                          (let s3 = report_if_error err s2
                                           in (case data of
                                                 None \<Rightarrow> (RetNull, s3)
                                               | Some rows \<Rightarrow>
                                                   (let s4 = s3\<lparr> toasts := toasts s3 @
                                                          [ToastSuccess ''Document created!''
                                                             ''Your document has been successfully uploaded and will be displayed on the docs list if it is public''] \<rparr>
                                                    in (if collaborators = [] then (Value rows, s4)
                                                        else (case rows of
                                                                [] \<Rightarrow> (RetUndefined, handleDocumentError type_error s4)
                                                              | d # ds \<Rightarrow>
                                                                  (Value rows,
                                                                   insertCollaborators_begin (doc_id d) collaborators s4))))))))))
                  | (other, s1) \<Rightarrow> (RetFalse, s1)))
      in (res, s9\<lparr> loadingSingle := False \<rparr>))"

text \<open>\<^verbatim>\<open>{ ...doc, ...data, ...fileDetails, updated_at }\<close>, the value \<^verbatim>\<open>updateDocument\<close> returns.\<close>

definition merge_document :: "document \<Rightarrow> DocumentForm \<Rightarrow> FileDetails \<Rightarrow> string \<Rightarrow> document" where
  "merge_document d form fd now =
     d\<lparr> doc_id := (case form_id form of Some i \<Rightarrow> i | None \<Rightarrow> doc_id d),
        name := form_name form,
        details := form_details form,
        url := (case fd_url fd of Some u \<Rightarrow> u | None \<Rightarrow> form_url form),
        is_draft := form_is_draft form,
        is_public := form_is_public form,
        tags := form_tags form,
        category := form_category form,
        file_size := (case fd_file_size fd of Some z \<Rightarrow> Some z | None \<Rightarrow> file_size d),
        file_type := (case fd_file_type fd of Some z \<Rightarrow> Some z | None \<Rightarrow> file_type d),
        original_name := (case fd_original_name fd of Some z \<Rightarrow> Some z | None \<Rightarrow> original_name d),
        updated_at := now \<rparr>"

text \<open>The file details \<^verbatim>\<open>updateDocument\<close> collects: none without a file; with one, its size,
  type and name, and the new path when \<^verbatim>\<open>updateFile\<close> returned a truthy one.\<close>

definition replace_file ::
    "document \<Rightarrow> File option \<Rightarrow> string reply \<Rightarrow> store \<Rightarrow> FileDetails \<times> store" where
  "replace_file d file r_file s =
     (case file of
        None \<Rightarrow>
          (\<lparr> fd_file_size = None, fd_file_type = None, fd_original_name = None, fd_url = None \<rparr>, s)
      | Some f \<Rightarrow>
          (case updateFile (url d) f r_file s of
             (u, s1) \<Rightarrow>
               (\<lparr> fd_file_size = Some (blob_size f), fd_file_type = Some (blob_type f),
                  fd_original_name = Some (blob_name f),
                  fd_url = (case u of
                              Value path \<Rightarrow> (if path = [] then None else Some path)
                            | other \<Rightarrow> None) \<rparr>, s1)))"

text \<open>\<^verbatim>\<open>updateDocument\<close>; \<open>now\<close> is \<^verbatim>\<open>new Date().toISOString()\<close>.\<close>

definition updateDocument ::
    "string \<Rightarrow> DocumentForm \<Rightarrow> File option \<Rightarrow> string list \<Rightarrow> string \<Rightarrow> document list reply \<Rightarrow>
     string reply \<Rightarrow> status_reply \<Rightarrow> status_reply \<Rightarrow> unit reply \<Rightarrow> store \<Rightarrow> document ret \<times> store" where
  "updateDocument i form file collaborators now r_get r_file r_row r_delete r_insert s =
     (let s0 = s\<lparr> loadingSingle := True, error := ErrorNull \<rparr>;
          (res, s9) =
            (case getDocument i r_get s0 of
               (Value d, s1) \<Rightarrow>
                 (case replace_file d file r_file s1 of
                    (fileDetails, s2) \<Rightarrow>
                      (let s3 = dispatch (UpdateDocumentRow (doc_id d) form fileDetails now) s2
                       in (case r_row of
                             StatusThrows e \<Rightarrow> (RetUndefined, handleDocumentError e s3)
                           | Status st err \<Rightarrow>
                               (if st \<noteq> 204
                                then (RetFalse,
                                      handleDocumentError (ErrStr ''Document not succcessfully updated'') s3)
                                else (let s4 = s3\<lparr> toasts := toasts s3 @
                                           [ToastSuccess ''Update successful'' ''Document updated successfully''] \<rparr>
                                      in (case updateCollaborators i collaborators r_delete r_insert s4 of
                                            (Some e, s5) \<Rightarrow> (RetUndefined, handleDocumentError e s5)
                                          | (None, s5) \<Rightarrow>
                                              (Value (merge_document d form fileDetails now), s5)))))))
             | (other, s1) \<Rightarrow> (RetFalse, s1))
      in (res, s9\<lparr> loadingSingle := False \<rparr>))"

text \<open>
  \<^verbatim>\<open>deleteDocument\<close>. The row is deleted by \<^verbatim>\<open>doc.id\<close>; the local collection is filtered by
  the argument \<^verbatim>\<open>id\<close>, and the list that is filtered is the computed \<^verbatim>\<open>documents\<close>.
\<close>

definition deleteDocument ::
    "string \<Rightarrow> document list reply \<Rightarrow> string list reply \<Rightarrow> status_reply \<Rightarrow> store \<Rightarrow> unit ret \<times> store" where
  "deleteDocument i r_get r_file r_row s =
     (let s0 = s\<lparr> loadingSingle := True, error := ErrorNull \<rparr>;
          (res, s9) =
            (case getDocument i r_get s0 of
               (Value d, s1) \<Rightarrow>
                 (case deleteFile (url d) r_file s1 of
                    (success, s2) \<Rightarrow>
                      (let s3 = (if success = RetTrue then s2
                                 else handleDocumentError (ErrObj None) s2);
                           s4 = dispatch (DeleteDocumentRow (doc_id d)) s3
                       in (case r_row of
                             StatusThrows e \<Rightarrow> (RetUndefined, handleDocumentError e s4)
                           | Status st err \<Rightarrow>
                               (if st \<noteq> 204
                                then (RetFalse,
                                      handleDocumentError (ErrStr ''Document not succcessfully deleted'') s4)
                                else (RetTrue,
                                      assign_documents
                                        (filter (\<lambda>d. doc_id d \<noteq> i) (documents s4)) s4)))))
             | (other, s1) \<Rightarrow> (RetFalse, s1))
      in (res, s9\<lparr> loadingSingle := False \<rparr>))"

section \<open>Filters and params\<close>

text \<open>\<^verbatim>\<open>getDocuments()\<close> is not awaited here: the page is requested, and its reply is handled
  later (\<open>getDocuments_end\<close>).\<close>

definition resetFilters :: "store \<Rightarrow> store" where
  "resetFilters s =
     getDocuments_begin (resetDocuments (s\<lparr> params := (params s)\<lparr> params_filters := None \<rparr> \<rparr>))"

definition updateFilters :: "Filters \<Rightarrow> store \<Rightarrow> store" where
  "updateFilters f s =
     getDocuments_begin (resetDocuments (s\<lparr> params := (params s)\<lparr> params_filters := Some f \<rparr> \<rparr>))"

definition resetParams :: "store \<Rightarrow> store" where
  "resetParams s =
     s\<lparr> params := \<lparr> params_range = \<lparr> range_from = 0, range_to = js_sub (perPage s) 1 \<rparr>,
                    params_filters = None, params_order = [(Created_at, False)] \<rparr> \<rparr>"

section \<open>Reachable states and what the properties speak of\<close>

text \<open>
  The states the store can be in: the initial one, and what an exported action (or the
  part of one that runs before or after an \<^verbatim>\<open>await\<close> left pending) makes of a reachable
  state, whatever the gateway replies. The neighbours may change at any time: the
  signed-in user, and the tag and category stores (so also by
  \<^verbatim>\<open>getDocumentTagsAndCategories\<close>, which has them load), upon which the derived view is
  computed anew and its watcher runs.
\<close>

inductive reachable :: "store \<Rightarrow> bool" where
  init: "reachable (init user tgs cats)"
| auth: "reachable s \<Longrightarrow> reachable (s\<lparr> auth_user := user \<rparr>)"
| labels: "reachable s \<Longrightarrow>
    reachable (watch_documents (s\<lparr> tagStore_tags := tgs, categoryStore_categories := cats \<rparr>))"
| getDocuments_begin: "reachable s \<Longrightarrow> reachable (getDocuments_begin s)"
| getDocuments_end: "reachable s \<Longrightarrow> reachable (getDocuments_end r s)"
| getDocumentCount_end: "reachable s \<Longrightarrow> reachable (getDocumentCount_end c s)"
| nextPage_begin: "reachable s \<Longrightarrow> reachable (nextPage_begin s)"
| getUserDocuments: "reachable s \<Longrightarrow> reachable (snd (getUserDocuments criteria r s))"
| uploadFile: "reachable s \<Longrightarrow> reachable (snd (uploadFile gen file r_upload s))"
| updateFile: "reachable s \<Longrightarrow> reachable (snd (updateFile u f r_file s))"
| deleteFile: "reachable s \<Longrightarrow> reachable (snd (deleteFile path r_remove s))"
| getDocumentPublicUrl: "reachable s \<Longrightarrow> reachable (snd (getDocumentPublicUrl u r_url s))"
| openDocument: "reachable s \<Longrightarrow> reachable (openDocument path r_url s)"
| createDocument: "reachable s \<Longrightarrow>
    reachable (snd (createDocument gen file form cs r_upload r_insert s))"
| insertCollaborators_end: "reachable s \<Longrightarrow> reachable (insertCollaborators_end r_ins s)"
| getDocument: "reachable s \<Longrightarrow> reachable (snd (getDocument i r s))"
| updateDocument: "reachable s \<Longrightarrow>
    reachable (snd (updateDocument i form file cs now r r_file r_row r_delete r_ins s))"
| deleteDocument: "reachable s \<Longrightarrow> reachable (snd (deleteDocument i r r_remove r_row s))"
| resetErrors: "reachable s \<Longrightarrow> reachable (resetErrors s)"
| resetDocuments: "reachable s \<Longrightarrow> reachable (resetDocuments s)"
| resetFilters: "reachable s \<Longrightarrow> reachable (resetFilters s)"
| updateFilters: "reachable s \<Longrightarrow> reachable (updateFilters f s)"
| resetParams: "reachable s \<Longrightarrow> reachable (resetParams s)"

text \<open>The width of the range window, \<^verbatim>\<open>range.to - range.from\<close>.\<close>

definition window_width :: "store \<Rightarrow> int" where
  "window_width s = range_to (params_range (params s)) - range_from (params_range (params s))"

text \<open>Every key of the error map is \<^verbatim>\<open>email\<close> or \<^verbatim>\<open>document\<close>.\<close>

definition keys_ok :: "store \<Rightarrow> bool" where
  "keys_ok s = list_all (\<lambda>k. k = ''email'' \<or> k = ''document'') (map fst (errors s))"

text \<open>
  A lookup collection in which no display name is the slug of an entry with another
  display name: resolving a display name then gives that name again.
\<close>

definition names_stable :: "label list \<Rightarrow> bool" where
  "names_stable ls =
     list_all (\<lambda>l. list_all (\<lambda>m. slug m = label_name l \<longrightarrow> label_name m = label_name l) ls) ls"

text \<open>A document with its two label fields blanked: what is left is every other field.\<close>

definition without_labels :: "document \<Rightarrow> document" where
  "without_labels d = d\<lparr> category := None, tags := [] \<rparr>"

section \<open>Example data\<close>

definition example_document :: "string \<Rightarrow> string list \<Rightarrow> string option \<Rightarrow> document" where
  "example_document i tgs cat =
     \<lparr> category = cat, created_at = ''2024-01-01'', details = None, file_size = Some 500000,
       file_type = Some ''application/pdf'', doc_id = i, is_draft = False, is_public = True,
       last_accessed_at = None, name = ''report'', tags = tgs, updated_at = ''2024-01-01'',
       url = ''public/report'', user_id = ''u1'', original_name = Some ''report.pdf'' \<rparr>"

definition example_form :: DocumentForm where
  "example_form =
     \<lparr> form_id = None, form_name = ''report v2'', form_details = None, form_url = ''public/report'',
       form_is_draft = False, form_is_public = True, form_tags = [''a''], form_category = None \<rparr>"

text \<open>A store whose tag and category stores hold one entry each, after a first page of two
  documents has been loaded.\<close>

definition labelled_store :: store where
  "labelled_store =
     getDocuments
       (Reply (Some [example_document ''1'' [''a''] (Some ''c''),
                     example_document ''2'' [''a''] (Some ''c'')]) None)
       (init (Some ''u1'') [\<lparr> slug = ''a'', label_name = ''Alpha'' \<rparr>]
          [\<lparr> slug = ''c'', label_name = ''Contracts'' \<rparr>])"

text \<open>A store whose tag store gives the slug \<^verbatim>\<open>js\<close> the display name \<^verbatim>\<open>web\<close>, which is
  the slug of another tag.\<close>

definition chained_store :: store where
  "chained_store =
     init None [\<lparr> slug = ''js'', label_name = ''web'' \<rparr>,
                \<lparr> slug = ''web'', label_name = ''Web development'' \<rparr>] []"

text \<open>A store that has loaded its first page and learnt that there are 5 public documents
  (not more than a page: \<^verbatim>\<open>limitReached\<close> keeps its initial value).\<close>

definition counted_store :: store where
  "counted_store =
     getDocumentCount_end (Count (Some 5) None) (getDocuments_begin (init None [] []))"

text \<open>A store on its second page: 25 public documents, one page loaded, the next advanced to.\<close>

definition first_page_store :: store where
  "first_page_store =
     getDocumentCount_end (Count (Some 25) None)
       (getDocuments (Reply (Some [example_document ''1'' [] None]) None) (init None [] []))"

definition second_page_store :: store where
  "second_page_store =
     nextPage (Reply (Some [example_document ''2'' [] None]) None) first_page_store"

text \<open>The same store after a write to the exported \<^verbatim>\<open>params\<close>: a range of 100 entries, and
  a range of 10 entries that ends at the last safe integer, \<open>2 ^ 53 - 1\<close>.\<close>

definition wide_window_store :: store where
  "wide_window_store =
     first_page_store\<lparr> params := (params first_page_store)\<lparr> params_range :=
        \<lparr> range_from = 0, range_to = 99 \<rparr> \<rparr> \<rparr>"

definition far_window_store :: store where
  "far_window_store =
     first_page_store\<lparr> params := (params first_page_store)\<lparr> params_range :=
        \<lparr> range_from = 9007199254740982, range_to = 9007199254740991 \<rparr> \<rparr> \<rparr>"

text \<open>The labelled store after \<^verbatim>\<open>getDocuments\<close> has run once more and the gateway has sent
  document 1 again: the collection holds it twice.\<close>

definition twice_loaded_store :: store where
  "twice_loaded_store =
     getDocuments (Reply (Some [example_document ''1'' [''a''] (Some ''c'')]) None) labelled_store"

section \<open>Sums of doubles\<close>

lemma exponent_small: "n < 2 ^ 53 \<Longrightarrow> exponent n = 0"
  by (simp add: exponent.simps)

lemma exponent_large: "\<not> n < 2 ^ 53 \<Longrightarrow> exponent n = Suc (exponent (n div 2))"
  by (subst exponent.simps) simp

lemma round_magnitude_small: "n < 2 ^ 53 \<Longrightarrow> round_magnitude n = n"
  by (simp add: round_magnitude_def exponent_small)

text \<open>A safe integer is a double, and a sum that is a safe integer is exact.\<close>

lemma double_of_int_safe: "safe_integer n \<Longrightarrow> double_of_int n = n"
  by (auto simp: double_of_int_def safe_integer_def round_magnitude_small)

lemma js_add_safe: "safe_integer (a + b) \<Longrightarrow> js_add a b = a + b"
  by (simp add: js_add_def double_of_int_safe)

lemma js_sub_safe: "safe_integer (a - b) \<Longrightarrow> js_sub a b = a - b"
  by (simp add: js_sub_def double_of_int_safe)

lemma div_power_Suc: "(n::int) div 2 ^ Suc k = (n div 2) div 2 ^ k"
  by (simp add: zdiv_zmult2_eq)

lemma exponent_quotient_upper: "n div 2 ^ exponent n < 2 ^ 53"
proof (induction n rule: exponent.induct)
  case (1 n)
  show ?case
  proof (cases "n < 2 ^ 53")
    case True
    then show ?thesis by (simp add: exponent_small)
  next
    case False
    then have e: "exponent n = Suc (exponent (n div 2))" by (rule exponent_large)
    from False have "n div 2 div 2 ^ exponent (n div 2) < 2 ^ 53" by (rule "1.IH")
    then show ?thesis by (simp only: e div_power_Suc)
  qed
qed

lemma exponent_quotient_lower: "0 < exponent n \<Longrightarrow> 2 ^ 52 \<le> n div 2 ^ exponent n"
proof (induction n rule: exponent.induct)
  case (1 n)
  show ?case
  proof (cases "n < 2 ^ 53")
    case True
    with 1 show ?thesis by (simp add: exponent_small)
  next
    case False
    then have e: "exponent n = Suc (exponent (n div 2))" by (rule exponent_large)
    show ?thesis
    proof (cases "exponent (n div 2) = 0")
      case True
      with False show ?thesis by (simp add: e)
    next
      case pos: False
      then have "0 < exponent (n div 2)" by simp
      with False have "2 ^ 52 \<le> n div 2 div 2 ^ exponent (n div 2)" by (rule "1.IH")
      then show ?thesis by (simp only: e div_power_Suc)
    qed
  qed
qed

lemma exponent_unique:
  "2 ^ 52 * 2 ^ Suc e \<le> n \<Longrightarrow> n < 2 ^ 53 * 2 ^ Suc e \<Longrightarrow> exponent n = Suc e"
proof (induction e arbitrary: n)
  case 0
  then show ?case by (simp add: exponent_large exponent_small)
next
  case (Suc e)
  from Suc.prems have big: "\<not> n < 2 ^ 53"
  proof -
    have "(1::int) \<le> 2 * 2 ^ e" using one_le_power [of "2::int" e] by linarith
    then have "(2::int) ^ 53 \<le> 2 ^ 52 * 2 ^ Suc (Suc e)"
      by simp
    with Suc.prems show ?thesis by linarith
  qed
  from Suc.prems have "2 ^ 52 * 2 ^ Suc e \<le> n div 2" "n div 2 < 2 ^ 53 * 2 ^ Suc e"
    by simp_all
  then have "exponent (n div 2) = Suc e" by (rule Suc.IH)
  with big show ?case by (simp add: exponent_large)
qed

lemma exponent_mono: "a \<le> b \<Longrightarrow> exponent a \<le> exponent b"
proof (induction a arbitrary: b rule: exponent.induct)
  case (1 a)
  show ?case
  proof (cases "a < 2 ^ 53")
    case True
    then show ?thesis by (simp add: exponent_small)
  next
    case False
    with 1 have "\<not> b < 2 ^ 53" "a div 2 \<le> b div 2"
      by (simp_all add: zdiv_mono1)
    with False 1 show ?thesis
      by (simp add: exponent_large)
  qed
qed

lemma round_magnitude_lower: "(n div 2 ^ exponent n) * 2 ^ exponent n \<le> round_magnitude n"
  by (simp add: round_magnitude_def Let_def)

lemma round_magnitude_upper: "round_magnitude n \<le> (n div 2 ^ exponent n + 1) * 2 ^ exponent n"
  by (simp add: round_magnitude_def Let_def)

lemma round_magnitude_fixed:
  assumes "round_magnitude n = n"
  shows "n mod 2 ^ exponent n = 0"
proof -
  let ?e = "exponent n"
  let ?q = "n div 2 ^ ?e"
  let ?r = "n mod 2 ^ ?e"
  have n: "n = ?q * 2 ^ ?e + ?r" using div_mult_mod_eq [of n "2 ^ ?e"] by simp
  have r: "0 \<le> ?r" "?r < 2 ^ ?e" by simp_all
  from assms have "?q * 2 ^ ?e = n \<or> (?q + 1) * 2 ^ ?e = n"
    by (auto simp: round_magnitude_def Let_def split: if_splits)
  then show ?thesis
  proof
    assume "?q * 2 ^ ?e = n"
    with n show ?thesis by linarith
  next
    assume "(?q + 1) * 2 ^ ?e = n"
    then have "?q * 2 ^ ?e + 2 ^ ?e = n" by (simp add: algebra_simps)
    with n r show ?thesis by linarith
  qed
qed

lemma round_two_53: "round_magnitude 9007199254740992 = 9007199254740992"
  by code_simp

lemma round_magnitude_succ:
  assumes "0 \<le> p" "round_magnitude p = p"
  shows "p \<le> round_magnitude (p + 1)"
proof (cases "p < 2 ^ 53")
  case True
  then have "p + 1 < 2 ^ 53 \<or> p + 1 = 2 ^ 53" by linarith
  then show ?thesis
    by (auto simp: round_magnitude_small round_two_53)
next
  case False
  let ?e = "exponent p"
  let ?q = "p div 2 ^ ?e"
  from False have pos: "0 < ?e" by (simp add: exponent_large)
  then obtain k where k: "?e = Suc k" by (cases ?e) auto
  from assms(2) have "p mod 2 ^ ?e = 0" by (rule round_magnitude_fixed)
  then have p: "p = ?q * 2 ^ ?e" by (metis mod_eq_0_iff_dvd dvd_div_mult_self)
  have q: "2 ^ 52 \<le> ?q" "?q < 2 ^ 53"
    using pos exponent_quotient_lower [of p] exponent_quotient_upper [of p] by simp_all
  have two: "(2::int) \<le> 2 ^ ?e" by (simp add: k)
  have lo: "2 ^ 52 * 2 ^ ?e \<le> p + 1"
  proof -
    have "2 ^ 52 * 2 ^ ?e \<le> ?q * 2 ^ ?e" using q(1) by (simp add: mult_right_mono)
    with p show ?thesis by linarith
  qed
  have hi: "p + 1 < 2 ^ 53 * 2 ^ ?e"
  proof -
    have "(?q + 1) * 2 ^ ?e \<le> 2 ^ 53 * 2 ^ ?e" using q(2) by (simp add: mult_right_mono)
    moreover have "p + 1 < (?q + 1) * 2 ^ ?e"
    proof -
      have "(?q + 1) * 2 ^ ?e = ?q * 2 ^ ?e + 2 ^ ?e" by (simp add: algebra_simps)
      with p two show ?thesis by linarith
    qed
    ultimately show ?thesis by linarith
  qed
  have e': "exponent (p + 1) = ?e"
    using lo hi unfolding k by (rule exponent_unique)
  have "(p + 1) div 2 ^ ?e = ?q"
  proof -
    have "(p + 1) div 2 ^ ?e = (1 + ?q * 2 ^ ?e) div 2 ^ ?e" using p by (simp add: add.commute)
    also have "\<dots> = 1 div 2 ^ ?e + ?q" by (subst div_mult_self1) simp_all
    also have "\<dots> = ?q"
    proof -
      from two have "(1::int) < 2 ^ ?e" by linarith
      then have "(1::int) div 2 ^ ?e = 0" by (intro div_pos_pos_trivial) simp_all
      then show ?thesis by (simp only: add_0)
    qed
    finally show ?thesis .
  qed
  with round_magnitude_lower [of "p + 1"] e' p show ?thesis by simp
qed

lemma round_magnitude_pred:
  assumes "1 \<le> m" "round_magnitude m = m"
  shows "round_magnitude (m - 1) \<le> m"
proof (cases "m \<le> 2 ^ 53")
  case True
  then show ?thesis by (simp add: round_magnitude_small)
next
  case False
  let ?e = "exponent (m - 1)"
  have "?e \<le> exponent m" by (rule exponent_mono) simp
  moreover from assms(2) have "m mod 2 ^ exponent m = 0" by (rule round_magnitude_fixed)
  ultimately have "(2::int) ^ ?e dvd m"
    by (meson mod_eq_0_iff_dvd dvd_trans le_imp_power_dvd)
  then obtain k where k: "m = 2 ^ ?e * k" by (auto simp: dvd_def)
  have "(m - 1) div 2 ^ ?e = k - 1"
  proof -
    have pos: "(0::int) < 2 ^ ?e" by simp
    have "m - 1 = (k - 1) * 2 ^ ?e + (2 ^ ?e - 1)" using k by (simp add: algebra_simps)
    moreover have "0 \<le> (2::int) ^ ?e - 1" "(2::int) ^ ?e - 1 < 2 ^ ?e" using pos by simp_all
    ultimately show ?thesis
      by (metis add.commute div_mult_self1 div_pos_pos_trivial add_0 less_irrefl pos)
  qed
  with round_magnitude_upper [of "m - 1"] k show ?thesis
    by (simp add: algebra_simps)
qed

text \<open>Adding 1 to a double never gives a smaller one.\<close>

lemma double_of_int_succ: "is_double p \<Longrightarrow> p \<le> double_of_int (p + 1)"
proof (cases "0 \<le> p")
  case True
  assume "is_double p"
  with True have "round_magnitude p = p" by (simp add: is_double_def double_of_int_def)
  with True have "p \<le> round_magnitude (p + 1)" by (rule round_magnitude_succ)
  with True show ?thesis by (simp add: double_of_int_def)
next
  case False
  assume "is_double p"
  with False have fixed: "round_magnitude (- p) = - p"
    by (simp add: is_double_def double_of_int_def)
  show ?thesis
  proof (cases "p + 1 < 0")
    case True
    from False fixed have "round_magnitude (- p - 1) \<le> - p"
      by (intro round_magnitude_pred) simp_all
    with True show ?thesis by (simp add: double_of_int_def)
  next
    case zero: False
    with False have "p + 1 = 0" by simp
    with False show ?thesis by (simp add: double_of_int_def round_magnitude_small)
  qed
qed

section \<open>What the primitive steps leave alone\<close>

lemma handleDocumentError_frame [simp]:
  "params (handleDocumentError e s) = params s"
  "perPage (handleDocumentError e s) = perPage s"
  "pageNumber (handleDocumentError e s) = pageNumber s"
  "raw_documents (handleDocumentError e s) = raw_documents s"
  "limitReached (handleDocumentError e s) = limitReached s"
  "totalDocuments (handleDocumentError e s) = totalDocuments s"
  "requests (handleDocumentError e s) = requests s"
  "auth_user (handleDocumentError e s) = auth_user s"
  "tagStore_tags (handleDocumentError e s) = tagStore_tags s"
  "categoryStore_categories (handleDocumentError e s) = categoryStore_categories s"
  "console (handleDocumentError e s) = console s @ [e]"
  by (simp_all add: handleDocumentError_def Let_def)

lemma report_if_error_frame [simp]:
  "params (report_if_error err s) = params s"
  "perPage (report_if_error err s) = perPage s"
  "pageNumber (report_if_error err s) = pageNumber s"
  "raw_documents (report_if_error err s) = raw_documents s"
  "limitReached (report_if_error err s) = limitReached s"
  "totalDocuments (report_if_error err s) = totalDocuments s"
  "requests (report_if_error err s) = requests s"
  "auth_user (report_if_error err s) = auth_user s"
  "tagStore_tags (report_if_error err s) = tagStore_tags s"
  "categoryStore_categories (report_if_error err s) = categoryStore_categories s"
  by (cases err; simp)+

lemma dispatch_frame [simp]:
  "params (dispatch q s) = params s"
  "perPage (dispatch q s) = perPage s"
  "pageNumber (dispatch q s) = pageNumber s"
  "raw_documents (dispatch q s) = raw_documents s"
  "limitReached (dispatch q s) = limitReached s"
  "totalDocuments (dispatch q s) = totalDocuments s"
  "requests (dispatch q s) = requests s @ [q]"
  "auth_user (dispatch q s) = auth_user s"
  "tagStore_tags (dispatch q s) = tagStore_tags s"
  "categoryStore_categories (dispatch q s) = categoryStore_categories s"
  "errors (dispatch q s) = errors s"
  "console (dispatch q s) = console s"
  by (simp_all add: dispatch_def)

lemma length_documents [simp]: "length (documents s) = length (raw_documents s)"
  by (simp add: documents_def)

lemma assign_documents_frame [simp]:
  "params (assign_documents ds s) = params s"
  "perPage (assign_documents ds s) = perPage s"
  "pageNumber (assign_documents ds s) = pageNumber s"
  "raw_documents (assign_documents ds s) = ds"
  "totalDocuments (assign_documents ds s) = totalDocuments s"
  "requests (assign_documents ds s) = requests s"
  "auth_user (assign_documents ds s) = auth_user s"
  "tagStore_tags (assign_documents ds s) = tagStore_tags s"
  "categoryStore_categories (assign_documents ds s) = categoryStore_categories s"
  "errors (assign_documents ds s) = errors s"
  "console (assign_documents ds s) = console s"
  by (simp_all add: assign_documents_def watch_documents_def)

lemma assign_documents_limit [simp]:
  "limitReached (assign_documents ds s) =
     (limitReached s \<or> totalDocuments s = Some (int (length ds)))"
  by (auto simp: assign_documents_def watch_documents_def)

lemma watch_documents_frame [simp]:
  "params (watch_documents s) = params s"
  "perPage (watch_documents s) = perPage s"
  "pageNumber (watch_documents s) = pageNumber s"
  "raw_documents (watch_documents s) = raw_documents s"
  "errors (watch_documents s) = errors s"
  by (simp_all add: watch_documents_def)

lemma resetErrors_frame [simp]:
  "params (resetErrors s) = params s"
  "perPage (resetErrors s) = perPage s"
  "pageNumber (resetErrors s) = pageNumber s"
  "raw_documents (resetErrors s) = raw_documents s"
  "limitReached (resetErrors s) = limitReached s"
  "totalDocuments (resetErrors s) = totalDocuments s"
  "requests (resetErrors s) = requests s"
  "auth_user (resetErrors s) = auth_user s"
  "tagStore_tags (resetErrors s) = tagStore_tags s"
  "categoryStore_categories (resetErrors s) = categoryStore_categories s"
  "errors (resetErrors s) = []"
  "console (resetErrors s) = console s"
  by (simp_all add: resetErrors_def)

text \<open>The resolver reads the two lookup collections and nothing else of the store.\<close>

lemma updateDocumentTagsAndCategory_cong:
  "tagStore_tags s' = tagStore_tags s \<Longrightarrow>
   categoryStore_categories s' = categoryStore_categories s \<Longrightarrow>
   updateDocumentTagsAndCategory s' = updateDocumentTagsAndCategory s"
  by (rule ext) (simp add: updateDocumentTagsAndCategory_def)

lemma documents_map: "documents s = map (updateDocumentTagsAndCategory s) (raw_documents s)"
  by (simp add: documents_def updateDocumentTagsAndCategory_def)

lemma documents_empty [simp]: "raw_documents s = [] \<Longrightarrow> documents s = []"
  by (simp add: documents_def)

section \<open>The label resolver\<close>

lemma resolve_tag_absent: "t \<notin> slug ` set ls \<Longrightarrow> resolve_tag ls t = t"
proof -
  assume "t \<notin> slug ` set ls"
  then have "find (\<lambda>l. slug l = t) ls = None"
    by (auto simp: find_None_iff)
  then show ?thesis by (simp add: resolve_tag_def)
qed

lemma resolve_tag_present:
  assumes "t \<in> slug ` set ls"
  shows "\<exists>l\<in>set ls. slug l = t \<and> resolve_tag ls t = label_name l"
proof -
  from assms obtain l where found: "find (\<lambda>l. slug l = t) ls = Some l"
    by (cases "find (\<lambda>l. slug l = t) ls") (auto simp: find_None_iff)
  then have "l \<in> set ls \<and> slug l = t"
    by (auto simp: find_Some_iff)
  with found show ?thesis by (auto simp: resolve_tag_def)
qed

lemma resolve_tag_idem:
  assumes "names_stable ls"
  shows "resolve_tag ls (resolve_tag ls t) = resolve_tag ls t"
proof (cases "find (\<lambda>l. slug l = t) ls")
  case None
  then show ?thesis by (simp add: resolve_tag_def)
next
  case first: (Some l)
  then have l: "l \<in> set ls" by (auto simp: find_Some_iff)
  show ?thesis
  proof (cases "find (\<lambda>m. slug m = label_name l) ls")
    case None
    with first show ?thesis by (simp add: resolve_tag_def)
  next
    case (Some m)
    then have "m \<in> set ls \<and> slug m = label_name l" by (auto simp: find_Some_iff)
    with l assms have "label_name m = label_name l"
      by (auto simp: names_stable_def list_all_iff)
    with Some first show ?thesis
      by (simp add: resolve_tag_def)
  qed
qed

lemma resolve_category_idem:
  assumes "names_stable ls"
  shows "resolve_category ls (resolve_category ls c) = resolve_category ls c"
proof (cases "find (\<lambda>l. Some (slug l) = c) ls")
  case None
  then show ?thesis by (simp add: resolve_category_def)
next
  case first: (Some l)
  then have l: "l \<in> set ls" by (auto simp: find_Some_iff)
  show ?thesis
  proof (cases "find (\<lambda>m. Some (slug m) = Some (label_name l)) ls")
    case None
    with first show ?thesis by (simp add: resolve_category_def)
  next
    case (Some m)
    then have "m \<in> set ls \<and> slug m = label_name l" by (auto simp: find_Some_iff)
    with l assms have "label_name m = label_name l"
      by (auto simp: names_stable_def list_all_iff)
    with Some first show ?thesis
      by (simp add: resolve_category_def)
  qed
qed

lemma updateDocumentTagsAndCategory_idem:
  assumes "names_stable (tagStore_tags s)" "names_stable (categoryStore_categories s)"
  shows "updateDocumentTagsAndCategory s (updateDocumentTagsAndCategory s d) =
         updateDocumentTagsAndCategory s d"
  using assms
  by (simp add: updateDocumentTagsAndCategory_def resolve_tag_idem resolve_category_idem)

text \<open>
  Claim C9, as amended. The label resolver (\<^verbatim>\<open>updateDocumentTagsAndCategory\<close>, and the same
  expressions in the derived view \<^verbatim>\<open>documents\<close>) is a total function: it keeps the number
  and the order of the tags, maps each tag slug to the display name of the first entry of
  the tag collection with that slug and passes it through unchanged when there is none,
  does the same for the category with the category collection, and changes no other
  field. It is idempotent when, in both lookup collections, no display name is the slug
  of an entry with another display name.
\<close>

theorem label_resolver_lookup_order_idempotent:
  "length (tags (updateDocumentTagsAndCategory s d)) = length (tags d) \<and>
   (\<forall>i<length (tags d).
      tags (updateDocumentTagsAndCategory s d) ! i =
        (case find (\<lambda>l. slug l = tags d ! i) (tagStore_tags s) of
           Some l \<Rightarrow> label_name l | None \<Rightarrow> tags d ! i)) \<and>
   (\<forall>i<length (tags d). tags d ! i \<notin> slug ` set (tagStore_tags s) \<longrightarrow>
      tags (updateDocumentTagsAndCategory s d) ! i = tags d ! i) \<and>
   (\<forall>i<length (tags d). tags d ! i \<in> slug ` set (tagStore_tags s) \<longrightarrow>
      (\<exists>l\<in>set (tagStore_tags s). slug l = tags d ! i \<and>
         tags (updateDocumentTagsAndCategory s d) ! i = label_name l)) \<and>
   category (updateDocumentTagsAndCategory s d) =
     (case find (\<lambda>l. Some (slug l) = category d) (categoryStore_categories s) of
        Some l \<Rightarrow> Some (label_name l) | None \<Rightarrow> category d) \<and>
   without_labels (updateDocumentTagsAndCategory s d) = without_labels d \<and>
   documents s = map (updateDocumentTagsAndCategory s) (raw_documents s) \<and>
   (names_stable (tagStore_tags s) \<and> names_stable (categoryStore_categories s) \<longrightarrow>
      updateDocumentTagsAndCategory s (updateDocumentTagsAndCategory s d) =
        updateDocumentTagsAndCategory s d)"
proof (intro conjI impI)
  show "length (tags (updateDocumentTagsAndCategory s d)) = length (tags d)"
    by (simp add: updateDocumentTagsAndCategory_def)
  show "\<forall>i<length (tags d).
      tags (updateDocumentTagsAndCategory s d) ! i =
        (case find (\<lambda>l. slug l = tags d ! i) (tagStore_tags s) of
           Some l \<Rightarrow> label_name l | None \<Rightarrow> tags d ! i)"
    by (simp add: updateDocumentTagsAndCategory_def resolve_tag_def)
  show "\<forall>i<length (tags d). tags d ! i \<notin> slug ` set (tagStore_tags s) \<longrightarrow>
      tags (updateDocumentTagsAndCategory s d) ! i = tags d ! i"
    by (simp add: updateDocumentTagsAndCategory_def resolve_tag_absent)
  show "\<forall>i<length (tags d). tags d ! i \<in> slug ` set (tagStore_tags s) \<longrightarrow>
      (\<exists>l\<in>set (tagStore_tags s). slug l = tags d ! i \<and>
         tags (updateDocumentTagsAndCategory s d) ! i = label_name l)"
    by (simp add: updateDocumentTagsAndCategory_def resolve_tag_present)
  show "category (updateDocumentTagsAndCategory s d) =
     (case find (\<lambda>l. Some (slug l) = category d) (categoryStore_categories s) of
        Some l \<Rightarrow> Some (label_name l) | None \<Rightarrow> category d)"
    by (simp add: updateDocumentTagsAndCategory_def resolve_category_def)
  show "without_labels (updateDocumentTagsAndCategory s d) = without_labels d"
    by (simp add: updateDocumentTagsAndCategory_def without_labels_def)
  show "documents s = map (updateDocumentTagsAndCategory s) (raw_documents s)"
    by (rule documents_map)
  show "updateDocumentTagsAndCategory s (updateDocumentTagsAndCategory s d) =
        updateDocumentTagsAndCategory s d"
    if "names_stable (tagStore_tags s) \<and> names_stable (categoryStore_categories s)"
    using that by (simp add: updateDocumentTagsAndCategory_idem)
qed

text \<open>An instance of the above: a document with a tag slug that no entry has, one that an
  entry has, and a category; the lookup collections are stable.\<close>

theorem label_resolver_witness:
  "names_stable (tagStore_tags labelled_store) \<and>
   names_stable (categoryStore_categories labelled_store) \<and>
   tags (updateDocumentTagsAndCategory labelled_store
           (example_document ''9'' [''zz'', ''a''] (Some ''c''))) = [''zz'', ''Alpha''] \<and>
   category (updateDocumentTagsAndCategory labelled_store
           (example_document ''9'' [''zz'', ''a''] (Some ''c''))) = Some ''Contracts'' \<and>
   updateDocumentTagsAndCategory labelled_store
     (updateDocumentTagsAndCategory labelled_store
        (example_document ''9'' [''zz'', ''a''] (Some ''c''))) =
   updateDocumentTagsAndCategory labelled_store
     (example_document ''9'' [''zz'', ''a''] (Some ''c''))"
proof -
  have tgs: "tagStore_tags labelled_store = [\<lparr> slug = ''a'', label_name = ''Alpha'' \<rparr>]"
    and cats: "categoryStore_categories labelled_store = [\<lparr> slug = ''c'', label_name = ''Contracts'' \<rparr>]"
    by (simp_all add: labelled_store_def getDocuments_def getDocuments_end_def
        getDocuments_begin_def getDocumentCount_begin_def init_def Let_def)
  have stable: "names_stable (tagStore_tags labelled_store) \<and>
      names_stable (categoryStore_categories labelled_store)"
    by (simp add: tgs cats names_stable_def)
  with label_resolver_lookup_order_idempotent
         [of labelled_store "example_document ''9'' [''zz'', ''a''] (Some ''c'')"]
  show ?thesis
    by (simp add: tgs cats updateDocumentTagsAndCategory_def resolve_tag_def
        resolve_category_def example_document_def)
qed

text \<open>Claim C9 as first stated fails: with the tag \<^verbatim>\<open>js\<close> named \<^verbatim>\<open>web\<close> and the tag \<^verbatim>\<open>web\<close> named
  \<^verbatim>\<open>Web development\<close>, resolving the tags \<^verbatim>\<open>["js"]\<close> once gives \<^verbatim>\<open>["web"]\<close> and resolving that
  again gives \<^verbatim>\<open>["Web development"]\<close>.\<close>

theorem label_resolver_not_idempotent:
  "updateDocumentTagsAndCategory chained_store
     (updateDocumentTagsAndCategory chained_store (example_document ''1'' [''js''] None)) \<noteq>
   updateDocumentTagsAndCategory chained_store (example_document ''1'' [''js''] None)"
  by (simp add: chained_store_def init_def updateDocumentTagsAndCategory_def resolve_tag_def
      resolve_category_def example_document_def)

section \<open>The limit recomputation\<close>

text \<open>
  Claim C4, as amended. The limit recomputation (the watcher on \<^verbatim>\<open>documents\<close>) only ever
  sets \<^verbatim>\<open>limitReached\<close>: when \<^verbatim>\<open>totalDocuments\<close> is known, \<^verbatim>\<open>limitReached\<close> is true after
  it if and only if the collection length equals \<^verbatim>\<open>totalDocuments\<close> or \<^verbatim>\<open>limitReached\<close>
  was true before; when it is unknown, nothing changes. No other cell changes.
\<close>

theorem limit_recomputation_latches:
  "(totalDocuments s = Some t \<longrightarrow>
      (limitReached (watch_documents s) \<longleftrightarrow>
         int (length (documents s)) = t \<or> limitReached s) \<and>
      (limitReached (assign_documents ds s) \<longleftrightarrow> int (length ds) = t \<or> limitReached s)) \<and>
   (totalDocuments s = None \<longrightarrow> watch_documents s = s) \<and>
   (watch_documents s)\<lparr> limitReached := limitReached s \<rparr> = s"
  by (auto simp: watch_documents_def)

lemma counted_store_eval:
  "counted_store =
     (init None [] [])\<lparr> loadingAll := True, totalDocuments := Some 5,
        requests := [CountPublicDocuments,
          GetPublicDocuments [(Created_at, False)] \<lparr> range_from = 0, range_to = 9 \<rparr> None] \<rparr>"
  by (simp add: counted_store_def getDocumentCount_end_def getDocuments_begin_def
      getDocumentCount_begin_def resetErrors_def dispatch_def init_def Let_def)

text \<open>An instance of the above, with 5 documents known: \<^verbatim>\<open>limitReached\<close>, true at first, stays
  true; from false it becomes true at 5 documents and stays false at 1.\<close>

theorem limit_recomputation_witness:
  "totalDocuments counted_store = Some 5 \<and>
   limitReached counted_store \<and>
   limitReached (watch_documents counted_store) \<and>
   limitReached (assign_documents
     [example_document ''1'' [] None, example_document ''2'' [] None,
      example_document ''3'' [] None, example_document ''4'' [] None,
      example_document ''5'' [] None] (counted_store\<lparr> limitReached := False \<rparr>)) \<and>
   limitReached (assign_documents [example_document ''1'' [] None]
     (counted_store\<lparr> limitReached := False \<rparr>)) = False"
  using limit_recomputation_latches [of counted_store 5 "[]"]
    limit_recomputation_latches [of "counted_store\<lparr> limitReached := False \<rparr>" 5
      "[example_document ''1'' [] None]"]
  by (simp add: counted_store_eval init_def)

text \<open>Claim C4 as first stated fails: 5 documents are known, one is loaded, and after the
  recomputation \<^verbatim>\<open>limitReached\<close> is true.\<close>

theorem limit_reached_without_equal_length:
  "totalDocuments (watch_documents
      (getDocuments_end (Reply (Some [example_document ''1'' [] None]) None) counted_store)) = Some 5 \<and>
   length (documents (watch_documents
      (getDocuments_end (Reply (Some [example_document ''1'' [] None]) None) counted_store))) = 1 \<and>
   limitReached (watch_documents
      (getDocuments_end (Reply (Some [example_document ''1'' [] None]) None) counted_store))"
  by (simp add: counted_store_eval getDocuments_end_def init_def watch_documents_def Let_def)

section \<open>Collaborator insertion\<close>

lemma distinct_foldl_set_add: "distinct acc \<Longrightarrow> distinct (foldl set_add acc xs)"
  by (induction xs arbitrary: acc) (auto simp: set_add_def)

lemma set_foldl_set_add: "set (foldl set_add acc xs) = set acc \<union> set xs"
  by (induction xs arbitrary: acc) (auto simp: set_add_def)

lemma findIndex_nonneg: "u \<in> set xs \<Longrightarrow> 0 \<le> findIndex (\<lambda>c. c = u) xs"
  by (induction xs) (auto simp: Let_def)

lemma splice1_Cons: "0 \<le> i \<Longrightarrow> splice1 (i + 1) (x # xs) = x # splice1 i xs"
  by (simp add: splice1_def Let_def nat_add_distrib min_def)

lemma splice1_findIndex:
  "u \<in> set xs \<Longrightarrow> splice1 (findIndex (\<lambda>c. c = u) xs) xs = remove1 u xs"
proof (induction xs)
  case Nil
  then show ?case by simp
next
  case (Cons x xs)
  show ?case
  proof (cases "x = u")
    case True
    then show ?thesis by (simp add: splice1_def)
  next
    case False
    with Cons.prems have "u \<in> set xs" by simp
    with False Cons.IH findIndex_nonneg [of u xs] show ?thesis
      by (simp add: Let_def splice1_Cons)
  qed
qed

text \<open>What the source's \<^verbatim>\<open>splice\<close> removes is the first occurrence of the acting user.\<close>

lemma remove_current_user_remove1: "remove_current_user (Some u) cs = remove1 u cs"
  by (simp add: remove_current_user_def splice1_findIndex remove1_idem)

text \<open>The part of claim C3 that holds: the payload never repeats a user id, and it is free
  of the acting user's id when the input holds that id at most once.\<close>

lemma insertCollaborators_payload_distinct:
  "distinct (map snd (insertCollaborators_payload user d cs))"
  by (simp add: insertCollaborators_payload_def array_from_set_def distinct_foldl_set_add comp_def)

lemma count_le1_remove1: "count_list cs u \<le> 1 \<Longrightarrow> u \<notin> set (remove1 u cs)"
  by (induction cs) (auto simp: count_list_0_iff)

lemma insertCollaborators_payload_single_user:
  "count_list cs u \<le> 1 \<Longrightarrow> u \<notin> snd ` set (insertCollaborators_payload (Some u) d cs)"
  by (simp add: insertCollaborators_payload_def remove_current_user_remove1 array_from_set_def
      set_foldl_set_add image_image count_le1_remove1)

text \<open>
  Claim C3, at the input on which the code departs from it. The acting user is \<^verbatim>\<open>u1\<close> and
  the collaborator list holds \<^verbatim>\<open>u1\<close> twice: one occurrence is spliced out, the other
  stays, and the payload that is inserted names the acting user.
\<close>

theorem insertCollaborators_keeps_repeated_user:
  "insertCollaborators_payload (Some ''u1'') ''d1'' [''u1'', ''u1'', ''u2''] =
     [(''d1'', ''u1''), (''d1'', ''u2'')] \<and>
   requests (insertCollaborators_begin ''d1'' [''u1'', ''u1'', ''u2''] (init (Some ''u1'') [] [])) =
     [InsertCollaborators [(''d1'', ''u1''), (''d1'', ''u2'')]]"
  by (simp add: insertCollaborators_begin_def insertCollaborators_payload_def
      remove_current_user_def splice1_def array_from_set_def set_add_def init_def)

section \<open>What the actions leave alone\<close>

text \<open>No action but \<^verbatim>\<open>nextPage\<close> and \<^verbatim>\<open>resetParams\<close> writes the range, none writes
  \<^verbatim>\<open>perPage\<close>, and only \<^verbatim>\<open>nextPage\<close> writes \<^verbatim>\<open>pageNumber\<close>.\<close>

lemma getDocumentCount_end_frame [simp]:
  "params (getDocumentCount_end c s) = params s"
  "perPage (getDocumentCount_end c s) = perPage s"
  "pageNumber (getDocumentCount_end c s) = pageNumber s"
  "raw_documents (getDocumentCount_end c s) = raw_documents s"
  by (simp_all add: getDocumentCount_end_def Let_def split: count_reply.splits option.splits)

lemma getDocuments_begin_frame [simp]:
  "params (getDocuments_begin s) = params s"
  "perPage (getDocuments_begin s) = perPage s"
  "pageNumber (getDocuments_begin s) = pageNumber s"
  "raw_documents (getDocuments_begin s) = raw_documents s"
  "limitReached (getDocuments_begin s) = limitReached s"
  "totalDocuments (getDocuments_begin s) = totalDocuments s"
  "tagStore_tags (getDocuments_begin s) = tagStore_tags s"
  "categoryStore_categories (getDocuments_begin s) = categoryStore_categories s"
  "errors (getDocuments_begin s) = []"
  "loadingAll (getDocuments_begin s) = True"
  by (simp_all add: getDocuments_begin_def getDocumentCount_begin_def dispatch_def
      resetErrors_def Let_def)

lemma getDocuments_begin_requests:
  "requests (getDocuments_begin s) =
     requests s @ (if pageNumber s = 1 then [CountPublicDocuments] else []) @
       [GetPublicDocuments (params_order (params s)) (params_range (params s))
          (params_filters (params s))]"
  by (simp add: getDocuments_begin_def getDocumentCount_begin_def Let_def)

lemma getDocuments_end_frame [simp]:
  "params (getDocuments_end r s) = params s"
  "perPage (getDocuments_end r s) = perPage s"
  "pageNumber (getDocuments_end r s) = pageNumber s"
  by (simp_all add: getDocuments_end_def Let_def split: reply.splits option.splits)

lemma getUserDocuments_frame [simp]:
  "params (snd (getUserDocuments c r s)) = params s"
  "perPage (snd (getUserDocuments c r s)) = perPage s"
  "pageNumber (snd (getUserDocuments c r s)) = pageNumber s"
  by (simp_all add: getUserDocuments_def Let_def case_prod_beta split: reply.splits option.splits)

lemma uploadFile_frame [simp]:
  "params (snd (uploadFile g fl r s)) = params s"
  "perPage (snd (uploadFile g fl r s)) = perPage s"
  "pageNumber (snd (uploadFile g fl r s)) = pageNumber s"
  "auth_user (snd (uploadFile g fl r s)) = auth_user s"
  by (simp_all add: uploadFile_def Let_def case_prod_beta split: reply.splits option.splits)

lemma updateFile_frame [simp]:
  "params (snd (updateFile u f r s)) = params s"
  "perPage (snd (updateFile u f r s)) = perPage s"
  "pageNumber (snd (updateFile u f r s)) = pageNumber s"
  by (simp_all add: updateFile_def Let_def split: reply.splits option.splits)

lemma deleteFile_frame [simp]:
  "params (snd (deleteFile p r s)) = params s"
  "perPage (snd (deleteFile p r s)) = perPage s"
  "pageNumber (snd (deleteFile p r s)) = pageNumber s"
  "raw_documents (snd (deleteFile p r s)) = raw_documents s"
  "tagStore_tags (snd (deleteFile p r s)) = tagStore_tags s"
  "categoryStore_categories (snd (deleteFile p r s)) = categoryStore_categories s"
  "totalDocuments (snd (deleteFile p r s)) = totalDocuments s"
  "limitReached (snd (deleteFile p r s)) = limitReached s"
  "requests (snd (deleteFile p r s)) = requests s @ [StorageRemove [p]]"
  by (simp_all add: deleteFile_def Let_def split: reply.splits option.splits)

lemma getDocumentPublicUrl_frame [simp]:
  "params (snd (getDocumentPublicUrl u r s)) = params s"
  "perPage (snd (getDocumentPublicUrl u r s)) = perPage s"
  "pageNumber (snd (getDocumentPublicUrl u r s)) = pageNumber s"
  "params (openDocument u r s) = params s"
  "perPage (openDocument u r s) = perPage s"
  "pageNumber (openDocument u r s) = pageNumber s"
  by (simp_all add: openDocument_def getDocumentPublicUrl_def Let_def
      split: reply.splits option.splits)

lemma getDocument_frame [simp]:
  "params (snd (getDocument i r s)) = params s"
  "perPage (snd (getDocument i r s)) = perPage s"
  "pageNumber (snd (getDocument i r s)) = pageNumber s"
  "raw_documents (snd (getDocument i r s)) = raw_documents s"
  "tagStore_tags (snd (getDocument i r s)) = tagStore_tags s"
  "categoryStore_categories (snd (getDocument i r s)) = categoryStore_categories s"
  "totalDocuments (snd (getDocument i r s)) = totalDocuments s"
  "limitReached (snd (getDocument i r s)) = limitReached s"
  "requests (snd (getDocument i r s)) = requests s @ [SelectDocument i]"
  by (simp_all add: getDocument_def Let_def case_prod_beta split: reply.splits option.splits list.splits)

lemma getDocument_found [simp]:
  "fst (getDocument i (Reply (Some (d # ds)) e) s) = Value d"
  by (simp add: getDocument_def Let_def)

lemma insertCollaborators_frame [simp]:
  "params (insertCollaborators_end r s) = params s"
  "perPage (insertCollaborators_end r s) = perPage s"
  "pageNumber (insertCollaborators_end r s) = pageNumber s"
  "params (insertCollaborators_begin i cs s) = params s"
  "perPage (insertCollaborators_begin i cs s) = perPage s"
  "pageNumber (insertCollaborators_begin i cs s) = pageNumber s"
  by (simp_all add: insertCollaborators_end_def insertCollaborators_begin_def split: reply.splits)

lemma updateCollaborators_frame [simp]:
  "params (snd (updateCollaborators i cs rd ri s)) = params s"
  "perPage (snd (updateCollaborators i cs rd ri s)) = perPage s"
  "pageNumber (snd (updateCollaborators i cs rd ri s)) = pageNumber s"
  by (simp_all add: updateCollaborators_def insertCollaborators_def Let_def
      split: status_reply.splits)

lemma replace_file_frame [simp]:
  "params (snd (replace_file d fl r s)) = params s"
  "perPage (snd (replace_file d fl r s)) = perPage s"
  "pageNumber (snd (replace_file d fl r s)) = pageNumber s"
  by (simp_all add: replace_file_def case_prod_beta split: option.splits)

lemma createDocument_frame [simp]:
  "params (snd (createDocument g fl form cs r_up r_ins s)) = params s"
  "perPage (snd (createDocument g fl form cs r_up r_ins s)) = perPage s"
  "pageNumber (snd (createDocument g fl form cs r_up r_ins s)) = pageNumber s"
  by (simp_all add: createDocument_def Let_def case_prod_beta
      split: ret.splits reply.splits option.splits list.splits)

lemma updateDocument_frame [simp]:
  "params (snd (updateDocument i form fl cs now r r_file r_row r_delete r_ins s)) = params s"
  "perPage (snd (updateDocument i form fl cs now r r_file r_row r_delete r_ins s)) = perPage s"
  "pageNumber (snd (updateDocument i form fl cs now r r_file r_row r_delete r_ins s)) = pageNumber s"
  by (simp_all add: updateDocument_def Let_def case_prod_beta
      split: ret.splits status_reply.splits option.splits)

lemma deleteDocument_frame [simp]:
  "params (snd (deleteDocument i r r_file r_row s)) = params s"
  "perPage (snd (deleteDocument i r r_file r_row s)) = perPage s"
  "pageNumber (snd (deleteDocument i r r_file r_row s)) = pageNumber s"
  by (simp_all add: deleteDocument_def Let_def case_prod_beta
      split: ret.splits status_reply.splits option.splits)

lemma filters_frame [simp]:
  "params_range (params (resetFilters s)) = params_range (params s)"
  "params_order (params (resetFilters s)) = params_order (params s)"
  "params_filters (params (resetFilters s)) = None"
  "perPage (resetFilters s) = perPage s"
  "pageNumber (resetFilters s) = pageNumber s"
  "params_range (params (updateFilters f s)) = params_range (params s)"
  "params_order (params (updateFilters f s)) = params_order (params s)"
  "params_filters (params (updateFilters f s)) = Some f"
  "perPage (updateFilters f s) = perPage s"
  "pageNumber (updateFilters f s) = pageNumber s"
  "params (resetDocuments s) = params s"
  "perPage (resetDocuments s) = perPage s"
  "pageNumber (resetDocuments s) = pageNumber s"
  "perPage (resetParams s) = perPage s"
  "pageNumber (resetParams s) = pageNumber s"
  by (simp_all add: resetFilters_def updateFilters_def resetDocuments_def resetParams_def)

lemma nextPage_begin_perPage [simp]: "perPage (nextPage_begin s) = perPage s"
  by (simp add: nextPage_begin_def Let_def)

text \<open>In every reachable state the page size is 10: nothing writes \<^verbatim>\<open>perPage\<close>, and the
  cell is not exported.\<close>

lemma reachable_perPage: "reachable s \<Longrightarrow> perPage s = 10"
  by (induction rule: reachable.induct) (simp_all add: init_def)

section \<open>Advancing the page\<close>

lemma first_page_store_eval:
  "first_page_store =
     (init None [] [])\<lparr> raw_documents := [example_document ''1'' [] None],
        limitReached := False, totalDocuments := Some 25,
        requests := [CountPublicDocuments,
          GetPublicDocuments [(Created_at, False)] \<lparr> range_from = 0, range_to = 9 \<rparr> None] \<rparr>"
  by (simp add: first_page_store_def getDocumentCount_end_def getDocuments_def
      getDocuments_end_def getDocuments_begin_def getDocumentCount_begin_def resetErrors_def
      dispatch_def assign_documents_def watch_documents_def init_def Let_def)

lemma second_page_store_eval:
  "second_page_store =
     (init None [] [])\<lparr>
        raw_documents := [example_document ''1'' [] None, example_document ''2'' [] None],
        pageNumber := 2, limitReached := False, totalDocuments := Some 25,
        params := \<lparr> params_range = \<lparr> range_from = 10, range_to = 19 \<rparr>,
                     params_filters = None, params_order = [(Created_at, False)] \<rparr>,
        requests := [CountPublicDocuments,
          GetPublicDocuments [(Created_at, False)] \<lparr> range_from = 0, range_to = 9 \<rparr> None,
          GetPublicDocuments [(Created_at, False)] \<lparr> range_from = 10, range_to = 19 \<rparr> None] \<rparr>"
  by (simp add: second_page_store_def first_page_store_eval nextPage_def nextPage_begin_def
      getDocuments_end_def getDocuments_begin_def getDocumentCount_begin_def resetErrors_def
      dispatch_def assign_documents_def watch_documents_def init_def Let_def
      js_add_safe js_sub_safe safe_integer_def)

lemma reachable_first_page_store: "reachable first_page_store"
  unfolding first_page_store_def getDocuments_def
  by (intro reachable.intros)

lemma reachable_second_page_store: "reachable second_page_store"
proof -
  have "reachable (getDocuments_end (Reply (Some [example_document ''2'' [] None]) None)
          (nextPage_begin first_page_store))"
    by (intro reachable.intros reachable_first_page_store)
  then show ?thesis
    by (simp add: second_page_store_def nextPage_def first_page_store_eval)
qed

text \<open>
  Claim C6, as amended. For every pagination state, \<^verbatim>\<open>nextPage\<close> changes nothing when
  \<^verbatim>\<open>limitReached\<close> is true; otherwise it sets \<^verbatim>\<open>range.from\<close> to the previous
  \<^verbatim>\<open>range.to + 1\<close>, \<^verbatim>\<open>range.to\<close> to the new \<^verbatim>\<open>from + perPage - 1\<close>, increments
  \<^verbatim>\<open>pageNumber\<close>, and requests that window, each sum being the sum of doubles: exact as
  long as it is a safe integer, rounded beyond; whatever the reply to the request, these
  values stand when the call ends. A call never decreases \<^verbatim>\<open>pageNumber\<close>, whatever
  double the cell holds. It does not
  narrow the range window when the window is no wider than a page before the call
  (\<^verbatim>\<open>to - from\<close> at most \<^verbatim>\<open>perPage - 1\<close>) and the sums are safe integers.
\<close>

theorem nextPage_advances_or_is_noop:
  "(limitReached s \<longrightarrow> nextPage r s = s \<and> nextPage_begin s = s) \<and>
   (\<not> limitReached s \<longrightarrow>
      range_from (params_range (params (nextPage r s))) =
        js_add (range_to (params_range (params s))) 1 \<and>
      range_to (params_range (params (nextPage r s))) =
        js_add (range_from (params_range (params (nextPage r s)))) (js_sub (perPage s) 1) \<and>
      pageNumber (nextPage r s) = js_add (pageNumber s) 1 \<and>
      params (nextPage_begin s) = params (nextPage r s) \<and>
      pageNumber (nextPage_begin s) = pageNumber (nextPage r s) \<and>
      last (requests (nextPage_begin s)) =
        GetPublicDocuments (params_order (params s)) (params_range (params (nextPage r s)))
          (params_filters (params s))) \<and>
   (\<not> limitReached s \<and> safe_integer (range_to (params_range (params s)) + 1) \<and>
    safe_integer (perPage s - 1) \<and>
    safe_integer (range_to (params_range (params s)) + perPage s) \<longrightarrow>
      range_from (params_range (params (nextPage r s))) =
        range_to (params_range (params s)) + 1 \<and>
      range_to (params_range (params (nextPage r s))) =
        range_from (params_range (params (nextPage r s))) + perPage s - 1) \<and>
   (\<not> limitReached s \<and> safe_integer (pageNumber s + 1) \<longrightarrow>
      pageNumber (nextPage r s) = pageNumber s + 1) \<and>
   (is_double (pageNumber s) \<longrightarrow> pageNumber s \<le> pageNumber (nextPage r s)) \<and>
   (window_width s \<le> perPage s - 1 \<and>
    safe_integer (range_to (params_range (params s)) + 1) \<and>
    safe_integer (perPage s - 1) \<and>
    safe_integer (range_to (params_range (params s)) + perPage s) \<longrightarrow>
      window_width s \<le> window_width (nextPage r s))"
proof (intro conjI impI)
  assume "limitReached s"
  then show "nextPage r s = s" "nextPage_begin s = s"
    by (simp_all add: nextPage_def nextPage_begin_def)
next
  assume open_: "\<not> limitReached s"
  then show "range_from (params_range (params (nextPage r s))) =
        js_add (range_to (params_range (params s))) 1"
    and "range_to (params_range (params (nextPage r s))) =
        js_add (range_from (params_range (params (nextPage r s)))) (js_sub (perPage s) 1)"
    and "pageNumber (nextPage r s) = js_add (pageNumber s) 1"
    and "params (nextPage_begin s) = params (nextPage r s)"
    and "pageNumber (nextPage_begin s) = pageNumber (nextPage r s)"
    by (simp_all add: nextPage_def nextPage_begin_def Let_def)
  from open_ show "last (requests (nextPage_begin s)) =
        GetPublicDocuments (params_order (params s)) (params_range (params (nextPage r s)))
          (params_filters (params s))"
    by (simp add: nextPage_def nextPage_begin_def getDocuments_begin_requests Let_def)
next
  assume safe: "\<not> limitReached s \<and> safe_integer (range_to (params_range (params s)) + 1) \<and>
    safe_integer (perPage s - 1) \<and>
    safe_integer (range_to (params_range (params s)) + perPage s)"
  then have last_: "safe_integer (range_to (params_range (params s)) + 1 + (perPage s - 1))"
    by (simp add: algebra_simps)
  from safe show "range_from (params_range (params (nextPage r s))) =
        range_to (params_range (params s)) + 1"
    by (simp add: nextPage_def nextPage_begin_def Let_def js_add_safe)
  from safe last_ show "range_to (params_range (params (nextPage r s))) =
        range_from (params_range (params (nextPage r s))) + perPage s - 1"
    by (simp add: nextPage_def nextPage_begin_def Let_def js_add_safe js_sub_safe)
next
  assume "\<not> limitReached s \<and> safe_integer (pageNumber s + 1)"
  then show "pageNumber (nextPage r s) = pageNumber s + 1"
    by (simp add: nextPage_def nextPage_begin_def Let_def js_add_safe)
next
  assume "is_double (pageNumber s)"
  then have "pageNumber s \<le> js_add (pageNumber s) 1"
    unfolding js_add_def by (rule double_of_int_succ)
  then show "pageNumber s \<le> pageNumber (nextPage r s)"
    by (simp add: nextPage_def nextPage_begin_def Let_def)
next
  assume page: "window_width s \<le> perPage s - 1 \<and>
    safe_integer (range_to (params_range (params s)) + 1) \<and>
    safe_integer (perPage s - 1) \<and>
    safe_integer (range_to (params_range (params s)) + perPage s)"
  then have last_: "safe_integer (range_to (params_range (params s)) + 1 + (perPage s - 1))"
    by (simp add: algebra_simps)
  show "window_width s \<le> window_width (nextPage r s)"
  proof (cases "limitReached s")
    case True
    then show ?thesis by (simp add: nextPage_def)
  next
    case False
    with page last_ have "window_width (nextPage r s) = perPage s - 1"
      by (simp add: nextPage_def nextPage_begin_def window_width_def Let_def js_add_safe
          js_sub_safe)
    with page show ?thesis by simp
  qed
qed

text \<open>An instance of the above: from the first page of a catalogue of 25 to the second, and
  the call that changes nothing in the initial state.\<close>

theorem nextPage_witness:
  "\<not> limitReached first_page_store \<and>
   safe_integer (range_to (params_range (params first_page_store)) + 1) \<and>
   safe_integer (perPage first_page_store - 1) \<and>
   safe_integer (range_to (params_range (params first_page_store)) + perPage first_page_store) \<and>
   safe_integer (pageNumber first_page_store + 1) \<and>
   is_double (pageNumber first_page_store) \<and>
   window_width first_page_store \<le> perPage first_page_store - 1 \<and>
   pageNumber first_page_store = 1 \<and>
   params_range (params first_page_store) = \<lparr> range_from = 0, range_to = 9 \<rparr> \<and>
   pageNumber second_page_store = 2 \<and>
   params_range (params second_page_store) = \<lparr> range_from = 10, range_to = 19 \<rparr> \<and>
   window_width second_page_store = window_width first_page_store \<and>
   limitReached (init None [] []) \<and>
   nextPage (Reply (Some []) None) (init None [] []) = init None [] []"
  using nextPage_advances_or_is_noop
      [of first_page_store "Reply (Some [example_document ''2'' [] None]) None"]
    nextPage_advances_or_is_noop [of "init None [] []" "Reply (Some []) None"]
  by (simp add: first_page_store_eval second_page_store_eval window_width_def init_def
      safe_integer_def is_double_def double_of_int_safe)

lemma double_past_two_53:
  "double_of_int 9007199254740992 = 9007199254740992"
  "double_of_int 9007199254741001 = 9007199254741000"
  by code_simp+

text \<open>
  Claim C6 as first stated fails in two states that a write to the exported \<^verbatim>\<open>params\<close>
  gives. With the range 0 to 99 and a page size of 10, \<^verbatim>\<open>nextPage\<close> sets the range 100 to
  109: the window narrows from 99 to 9. With the range ending at \<open>2 ^ 53 - 1\<close>, the new
  \<^verbatim>\<open>from\<close> is \<open>2 ^ 53\<close> and the new \<^verbatim>\<open>to\<close> is \<open>2 ^ 53 + 8\<close>, which is not
  \<^verbatim>\<open>from + perPage - 1\<close>, and the window narrows from 9 to 8.
\<close>

theorem nextPage_narrows_the_window:
  "\<not> limitReached wide_window_store \<and>
   perPage wide_window_store = 10 \<and>
   params_range (params wide_window_store) = \<lparr> range_from = 0, range_to = 99 \<rparr> \<and>
   params_range (params (nextPage (Reply (Some []) None) wide_window_store)) =
     \<lparr> range_from = 100, range_to = 109 \<rparr> \<and>
   window_width (nextPage (Reply (Some []) None) wide_window_store) <
     window_width wide_window_store \<and>
   \<not> limitReached far_window_store \<and>
   perPage far_window_store = 10 \<and>
   window_width far_window_store = 9 \<and>
   params_range (params (nextPage (Reply (Some []) None) far_window_store)) =
     \<lparr> range_from = 9007199254740992, range_to = 9007199254741000 \<rparr> \<and>
   window_width (nextPage (Reply (Some []) None) far_window_store) = 8"
  by (simp add: wide_window_store_def far_window_store_def first_page_store_eval init_def
      nextPage_def nextPage_begin_def window_width_def Let_def js_add_def js_sub_def
      double_past_two_53 double_of_int_safe safe_integer_def)

section \<open>Changing the filters\<close>

text \<open>
  Claim C5, as amended. For every state, \<^verbatim>\<open>updateFilters\<close> replaces the filters and
  \<^verbatim>\<open>resetFilters\<close> removes them; either empties the collection (and with it the derived
  view) before it returns, and requests a page with the new filters and with the order
  and the range as they are: neither the range nor \<^verbatim>\<open>pageNumber\<close> is reset, so the page
  requested is the first one only if the range is still the first page's. (The total
  count is requested too when \<^verbatim>\<open>pageNumber\<close> is 1.) When the reply arrives with rows, the
  collection holds those rows and nothing loaded before.
\<close>

theorem filters_clear_and_refetch:
  "params_filters (params (updateFilters f s)) = Some f \<and>
   params_filters (params (resetFilters s)) = None \<and>
   raw_documents (updateFilters f s) = [] \<and> documents (updateFilters f s) = [] \<and>
   raw_documents (resetFilters s) = [] \<and> documents (resetFilters s) = [] \<and>
   params_range (params (updateFilters f s)) = params_range (params s) \<and>
   params_range (params (resetFilters s)) = params_range (params s) \<and>
   params_order (params (updateFilters f s)) = params_order (params s) \<and>
   params_order (params (resetFilters s)) = params_order (params s) \<and>
   pageNumber (updateFilters f s) = pageNumber s \<and>
   pageNumber (resetFilters s) = pageNumber s \<and>
   requests (updateFilters f s) =
     requests s @ (if pageNumber s = 1 then [CountPublicDocuments] else []) @
       [GetPublicDocuments (params_order (params s)) (params_range (params s)) (Some f)] \<and>
   requests (resetFilters s) =
     requests s @ (if pageNumber s = 1 then [CountPublicDocuments] else []) @
       [GetPublicDocuments (params_order (params s)) (params_range (params s)) None] \<and>
   raw_documents (getDocuments_end (Reply (Some rows) err) (updateFilters f s)) = rows \<and>
   raw_documents (getDocuments_end (Reply (Some rows) err) (resetFilters s)) = rows"
  by (simp add: updateFilters_def resetFilters_def resetDocuments_def
      getDocuments_begin_requests getDocuments_end_def Let_def)

text \<open>An instance of the above, on the second page and in the initial state.\<close>

theorem filters_witness:
  "raw_documents second_page_store \<noteq> [] \<and>
   raw_documents (updateFilters [(''tag'', ''a'')] second_page_store) = [] \<and>
   params_filters (params (updateFilters [(''tag'', ''a'')] second_page_store)) =
     Some [(''tag'', ''a'')] \<and>
   requests (resetFilters (init None [] [])) =
     [CountPublicDocuments,
      GetPublicDocuments [(Created_at, False)] \<lparr> range_from = 0, range_to = 9 \<rparr> None]"
  using filters_clear_and_refetch [of "[(''tag'', ''a'')]" second_page_store]
    filters_clear_and_refetch [of "[]" "init None [] []"]
  by (simp add: second_page_store_eval init_def)

text \<open>Claim C5 as first stated fails: on the second page (range 10 to 19) the page that
  \<^verbatim>\<open>updateFilters\<close> and \<^verbatim>\<open>resetFilters\<close> request is the range 10 to 19, and \<^verbatim>\<open>pageNumber\<close>
  stays 2.\<close>

theorem filters_fetch_is_not_first_page:
  "pageNumber second_page_store = 2 \<and>
   last (requests (updateFilters [(''tag'', ''a'')] second_page_store)) =
     GetPublicDocuments [(Created_at, False)] \<lparr> range_from = 10, range_to = 19 \<rparr>
       (Some [(''tag'', ''a'')]) \<and>
   last (requests (resetFilters second_page_store)) =
     GetPublicDocuments [(Created_at, False)] \<lparr> range_from = 10, range_to = 19 \<rparr> None \<and>
   pageNumber (updateFilters [(''tag'', ''a'')] second_page_store) = 2 \<and>
   pageNumber (resetFilters second_page_store) = 2"
  by (simp add: second_page_store_eval updateFilters_def resetFilters_def resetDocuments_def
      getDocuments_begin_requests init_def)

section \<open>Fetching the user's documents\<close>

text \<open>
  Claim C1, as amended. For every criteria (also one outside the four, which is served as
  \<^verbatim>\<open>mine\<close>), every reply and every state, \<^verbatim>\<open>getUserDocuments\<close> requests the documents of
  that criteria (each of the four has a request of its own), empties the collection and never writes the fetched rows into it: the
  collection and the derived view are empty when the call ends, and \<^verbatim>\<open>loadingAll\<close> is
  false. When the reply carries rows and no error, the call returns those rows with
  their labels resolved, and the store differs from the one before only in that the
  collection and the error map are empty, \<^verbatim>\<open>loadingAll\<close> is false, the request is logged,
  and \<^verbatim>\<open>limitReached\<close> is set if \<^verbatim>\<open>totalDocuments\<close> is 0.
\<close>

theorem getUserDocuments_clears_and_returns:
  "raw_documents (snd (getUserDocuments c r s)) = [] \<and>
   documents (snd (getUserDocuments c r s)) = [] \<and>
   loadingAll (snd (getUserDocuments c r s)) = False \<and>
   requests (snd (getUserDocuments c r s)) = requests s @ [criteria_request c] \<and>
   criteria_request ''mine'' = GetMyDocuments \<and>
   criteria_request ''private'' = GetMyPrivateDocuments \<and>
   criteria_request ''drafts'' = GetMyDraftDocuments \<and>
   criteria_request ''sharedWithMe'' = GetDocumentsSharedWithMe \<and>
   (\<not> truthy_error err \<longrightarrow>
      getUserDocuments c (Reply (Some rows) err) s =
        (Value (map (updateDocumentTagsAndCategory s) rows),
         s\<lparr> errors := [], loadingAll := False, raw_documents := [],
            limitReached := (limitReached s \<or> totalDocuments s = Some 0),
            requests := requests s @ [criteria_request c] \<rparr>))"
proof (intro conjI impI)
  show empty: "raw_documents (snd (getUserDocuments c r s)) = []"
    by (simp add: getUserDocuments_def Let_def case_prod_beta split: reply.splits option.splits)
  then show "documents (snd (getUserDocuments c r s)) = []"
    by simp
  show "loadingAll (snd (getUserDocuments c r s)) = False"
    by (simp add: getUserDocuments_def Let_def case_prod_beta split: reply.splits option.splits)
  show "requests (snd (getUserDocuments c r s)) = requests s @ [criteria_request c]"
    by (simp add: getUserDocuments_def Let_def case_prod_beta split: reply.splits option.splits)
  show "criteria_request ''mine'' = GetMyDocuments"
    and "criteria_request ''private'' = GetMyPrivateDocuments"
    and "criteria_request ''drafts'' = GetMyDraftDocuments"
    and "criteria_request ''sharedWithMe'' = GetDocumentsSharedWithMe"
    by (simp_all add: criteria_request_def)
next
  assume quiet: "\<not> truthy_error err"
  then show "getUserDocuments c (Reply (Some rows) err) s =
        (Value (map (updateDocumentTagsAndCategory s) rows),
         s\<lparr> errors := [], loadingAll := False, raw_documents := [],
            limitReached := (limitReached s \<or> totalDocuments s = Some 0),
            requests := requests s @ [criteria_request c] \<rparr>)"
    by (cases err)
       (auto simp: getUserDocuments_def Let_def dispatch_def resetErrors_def
          assign_documents_def watch_documents_def documents_def
          updateDocumentTagsAndCategory_def)
qed

lemma labelled_store_eval:
  "labelled_store =
     (init (Some ''u1'') [\<lparr> slug = ''a'', label_name = ''Alpha'' \<rparr>]
        [\<lparr> slug = ''c'', label_name = ''Contracts'' \<rparr>])\<lparr>
       raw_documents := [example_document ''1'' [''a''] (Some ''c''),
                         example_document ''2'' [''a''] (Some ''c'')],
       requests := [CountPublicDocuments,
          GetPublicDocuments [(Created_at, False)] \<lparr> range_from = 0, range_to = 9 \<rparr> None] \<rparr>"
  by (simp add: labelled_store_def getDocuments_def getDocuments_end_def
      getDocuments_begin_def getDocumentCount_begin_def resetErrors_def
      dispatch_def assign_documents_def watch_documents_def init_def Let_def)

text \<open>An instance of the above: the drafts, one row, no error.\<close>

theorem getUserDocuments_witness:
  "\<not> truthy_error None \<and>
   fst (getUserDocuments ''drafts'' (Reply (Some [example_document ''7'' [''a''] None]) None)
          labelled_store) = Value [example_document ''7'' [''Alpha''] None] \<and>
   raw_documents (snd (getUserDocuments ''drafts''
          (Reply (Some [example_document ''7'' [''a''] None]) None) labelled_store)) = [] \<and>
   requests (snd (getUserDocuments ''drafts''
          (Reply (Some [example_document ''7'' [''a''] None]) None) labelled_store)) =
     requests labelled_store @ [GetMyDraftDocuments]"
  using getUserDocuments_clears_and_returns
      [of "''drafts''" "Reply (Some [example_document ''7'' [''a''] None]) None" labelled_store
          None "[example_document ''7'' [''a''] None]"]
  by (simp add: labelled_store_eval init_def criteria_request_def
      updateDocumentTagsAndCategory_def resolve_tag_def resolve_category_def
      example_document_def)

text \<open>Claim C1 as first stated fails: after the call the collection is not the fetched rows
  (it is empty, and the view with it), and it is not what it was before either.\<close>

theorem getUserDocuments_does_not_store_rows:
  "raw_documents (snd (getUserDocuments ''mine''
      (Reply (Some [example_document ''7'' [''a''] None]) None) labelled_store)) \<noteq>
     [example_document ''7'' [''a''] None] \<and>
   documents (snd (getUserDocuments ''mine''
      (Reply (Some [example_document ''7'' [''a''] None]) None) labelled_store)) = [] \<and>
   raw_documents labelled_store \<noteq> raw_documents (snd (getUserDocuments ''mine''
      (Reply (Some [example_document ''7'' [''a''] None]) None) labelled_store))"
  by (simp add: getUserDocuments_def labelled_store_eval init_def Let_def)

section \<open>Updating and deleting a document\<close>

lemma updateDocument_not_204:
  "st \<noteq> 204 \<Longrightarrow>
   fst (updateDocument i form fl cs now (Reply (Some (d # ds)) e) r_file (Status st p)
          r_delete r_insert s) = RetFalse"
  by (simp add: updateDocument_def Let_def case_prod_beta)

lemma deleteDocument_not_204:
  "st \<noteq> 204 \<Longrightarrow>
   fst (deleteDocument i (Reply (Some (d # ds)) e) r_remove (Status st p) s) = RetFalse"
  by (simp add: deleteDocument_def Let_def case_prod_beta)

lemma updateDocument_success:
  "fst (updateDocument i form fl cs now r_get r_file r_row r_delete r_insert s) = Value m \<Longrightarrow>
   \<exists>p. r_row = Status 204 p"
  by (auto simp: updateDocument_def Let_def case_prod_beta
      split: ret.splits status_reply.splits option.splits if_splits)

lemma deleteDocument_success:
  "fst (deleteDocument i r_get r_remove r_row s) = RetTrue \<Longrightarrow> \<exists>p. r_row = Status 204 p"
  by (auto simp: deleteDocument_def Let_def case_prod_beta
      split: ret.splits status_reply.splits if_splits)

lemma updateDocument_row_request:
  "UpdateDocumentRow (doc_id d) form
      (fst (replace_file d fl r_file
         (snd (getDocument i (Reply (Some (d # ds)) e)
            (s\<lparr> loadingSingle := True, error := ErrorNull \<rparr>))))) now
     \<in> set (requests (snd (updateDocument i form fl cs now (Reply (Some (d # ds)) e) r_file r_row
          r_delete r_insert s)))"
  by (simp add: updateDocument_def updateCollaborators_def insertCollaborators_def
      insertCollaborators_begin_def insertCollaborators_end_def Let_def case_prod_beta
      split: status_reply.splits reply.splits)

text \<open>
  Claim C7. When \<^verbatim>\<open>updateDocument\<close> or \<^verbatim>\<open>deleteDocument\<close> has found the document (so that
  the row-level update or delete is issued), a status other than 204 makes the call
  return \<^verbatim>\<open>false\<close>, whatever error payload, if any, comes with the status; and a call
  that succeeds (\<^verbatim>\<open>updateDocument\<close> returning the merged document, \<^verbatim>\<open>deleteDocument\<close>
  returning \<^verbatim>\<open>true\<close>) has seen status 204.
\<close>

theorem row_mutation_succeeds_only_on_204:
  "(st \<noteq> 204 \<longrightarrow>
      fst (updateDocument i form fl cs now (Reply (Some (d # ds)) e) r_file (Status st p)
             r_delete r_insert s) = RetFalse \<and>
      fst (deleteDocument i (Reply (Some (d # ds)) e) r_remove (Status st p) s) = RetFalse) \<and>
   (fst (updateDocument i form fl cs now r_get r_file r_row r_delete r_insert s) = Value m \<longrightarrow>
      (\<exists>q. r_row = Status 204 q)) \<and>
   (fst (deleteDocument i r_get r_remove r_row s) = RetTrue \<longrightarrow> (\<exists>q. r_row = Status 204 q)) \<and>
   DeleteDocumentRow (doc_id d) \<in>
     set (requests (snd (deleteDocument i (Reply (Some (d # ds)) e) r_remove r_row s))) \<and>
   (\<exists>fd. UpdateDocumentRow (doc_id d) form fd now \<in>
     set (requests (snd (updateDocument i form fl cs now (Reply (Some (d # ds)) e) r_file r_row
          r_delete r_insert s))))"
proof (intro conjI impI)
  assume "st \<noteq> 204"
  then show "fst (updateDocument i form fl cs now (Reply (Some (d # ds)) e) r_file (Status st p)
             r_delete r_insert s) = RetFalse"
    and "fst (deleteDocument i (Reply (Some (d # ds)) e) r_remove (Status st p) s) = RetFalse"
    by (simp_all add: updateDocument_not_204 deleteDocument_not_204)
next
  assume "fst (updateDocument i form fl cs now r_get r_file r_row r_delete r_insert s) = Value m"
  then show "\<exists>q. r_row = Status 204 q" by (rule updateDocument_success)
next
  assume "fst (deleteDocument i r_get r_remove r_row s) = RetTrue"
  then show "\<exists>q. r_row = Status 204 q" by (rule deleteDocument_success)
next
  show "DeleteDocumentRow (doc_id d) \<in>
     set (requests (snd (deleteDocument i (Reply (Some (d # ds)) e) r_remove r_row s)))"
    by (simp add: deleteDocument_def Let_def case_prod_beta split: status_reply.splits)
next
  show "\<exists>fd. UpdateDocumentRow (doc_id d) form fd now \<in>
     set (requests (snd (updateDocument i form fl cs now (Reply (Some (d # ds)) e) r_file r_row
          r_delete r_insert s)))"
    using updateDocument_row_request by blast
qed

text \<open>An instance of the above: status 500 without an error payload, and status 204.\<close>

theorem row_mutation_witness:
  "(500 :: int) \<noteq> 204 \<and>
   fst (updateDocument ''1'' example_form None [] ''2024-02-02''
          (Reply (Some [example_document ''1'' [''a''] (Some ''c'')]) None) (Reply None None)
          (Status 500 None) (Status 204 None) (Reply None None) labelled_store) = RetFalse \<and>
   fst (deleteDocument ''1'' (Reply (Some [example_document ''1'' [''a''] (Some ''c'')]) None)
          (Reply (Some []) None) (Status 500 None) labelled_store) = RetFalse \<and>
   fst (deleteDocument ''1'' (Reply (Some [example_document ''1'' [''a''] (Some ''c'')]) None)
          (Reply (Some []) None) (Status 204 None) labelled_store) = RetTrue \<and>
   fst (updateDocument ''1'' example_form None [] ''2024-02-02''
          (Reply (Some [example_document ''1'' [''a''] (Some ''c'')]) None) (Reply None None)
          (Status 204 None) (Status 204 None) (Reply None None) labelled_store) =
     Value ((example_document ''1'' [''a''] None)\<lparr> name := ''report v2'',
               updated_at := ''2024-02-02'' \<rparr>)"
  using row_mutation_succeeds_only_on_204
      [where st = 500 and i = "''1''" and form = example_form and fl = None and cs = "[]"
         and now = "''2024-02-02''" and d = "example_document ''1'' [''a''] (Some ''c'')"
         and ds = "[]" and e = None and r_file = "Reply None None" and p = None
         and r_delete = "Status 204 None" and r_insert = "Reply None None"
         and r_remove = "Reply (Some [])  None" and s = labelled_store
         and r_get = "Reply (Some [example_document ''1'' [''a''] (Some ''c'')]) None"
         and r_row = "Status 204 None"
         and m = "(example_document ''1'' [''a''] None)\<lparr> name := ''report v2'',
               updated_at := ''2024-02-02'' \<rparr>"]
  by (simp add: updateDocument_def deleteDocument_def getDocument_def deleteFile_def
      replace_file_def updateCollaborators_def insertCollaborators_def
      insertCollaborators_begin_def insertCollaborators_end_def merge_document_def
      example_form_def example_document_def Let_def)

section \<open>Deleting a document: the collection\<close>

lemma doc_id_documents: "map doc_id (documents s) = map doc_id (raw_documents s)"
  by (simp add: documents_def)

lemma without_labels_documents:
  "map without_labels (filter (\<lambda>x. doc_id x \<noteq> i) (documents s)) =
   map without_labels (filter (\<lambda>x. doc_id x \<noteq> i) (raw_documents s))"
  by (induction "raw_documents s" arbitrary: s) (auto simp: documents_def without_labels_def filter_map comp_def)

lemma length_filter_count:
  "length (filter (\<lambda>j. j \<noteq> i) xs) + count_list xs i = length xs"
  by (induction xs) auto

lemma deleteDocument_204:
  "fst (deleteDocument i (Reply (Some (d # ds)) e) r_remove (Status 204 p) s) = RetTrue"
  "raw_documents (snd (deleteDocument i (Reply (Some (d # ds)) e) r_remove (Status 204 p) s)) =
     filter (\<lambda>x. doc_id x \<noteq> i) (documents s)"
  by (simp_all add: deleteDocument_def Let_def case_prod_beta documents_def)

lemma deleteDocument_kept:
  "st \<noteq> 204 \<Longrightarrow>
   raw_documents (snd (deleteDocument i (Reply (Some (d # ds)) e) r_remove (Status st p) s)) =
     raw_documents s"
  "raw_documents (snd (deleteDocument i (Reply (Some (d # ds)) e) r_remove (StatusThrows e') s)) =
     raw_documents s"
  by (simp_all add: deleteDocument_def Let_def case_prod_beta)

lemma deleteDocument_requests:
  "requests (snd (deleteDocument i (Reply (Some (d # ds)) e) r_remove r_row s)) =
     requests s @ [SelectDocument i, StorageRemove [url d], DeleteDocumentRow (doc_id d)]"
  by (simp add: deleteDocument_def Let_def case_prod_beta split: status_reply.splits)

lemma deleteDocument_logs_file_failure:
  "ErrObj None \<in> set (console (snd (deleteDocument i (Reply (Some (d # ds)) e)
      (Reply None err) r_row s)))"
  "ErrObj None \<in> set (console (snd (deleteDocument i (Reply (Some (d # ds)) e)
      (Throws e') r_row s)))"
  by (simp_all add: deleteDocument_def deleteFile_def Let_def case_prod_beta
      split: status_reply.splits)

text \<open>
  Claim C8, as amended. Let \<^verbatim>\<open>deleteDocument(id)\<close> have found the document. If the row
  delete reports 204, the call returns \<^verbatim>\<open>true\<close> and the collection loses every entry
  whose id is \<^verbatim>\<open>id\<close> (one entry when the id occurs once, all of them when it occurs
  several times) and no other: the ids that remain are the other ids in their order, the
  collection is shorter by the number of entries that had the id, and every remaining
  entry has all its fields other than \<^verbatim>\<open>tags\<close> and \<^verbatim>\<open>category\<close> as before. If the row
  delete reports another status or is rejected, the collection is unchanged (and another
  status returns \<^verbatim>\<open>false\<close>). Whatever the outcome of the file deletion before it, the row
  delete is issued: the calls are the select, the file removal and the row delete, in
  this order; and a file deletion that failed (no data, or a rejection) is logged.
\<close>

theorem deleteDocument_removes_matching_entries:
  "fst (deleteDocument i (Reply (Some (d # ds)) e) r_remove (Status 204 p) s) = RetTrue \<and>
   map doc_id (raw_documents
       (snd (deleteDocument i (Reply (Some (d # ds)) e) r_remove (Status 204 p) s))) =
     filter (\<lambda>j. j \<noteq> i) (map doc_id (raw_documents s)) \<and>
   length (raw_documents
       (snd (deleteDocument i (Reply (Some (d # ds)) e) r_remove (Status 204 p) s))) +
     count_list (map doc_id (raw_documents s)) i = length (raw_documents s) \<and>
   map without_labels (raw_documents
       (snd (deleteDocument i (Reply (Some (d # ds)) e) r_remove (Status 204 p) s))) =
     map without_labels (filter (\<lambda>x. doc_id x \<noteq> i) (raw_documents s)) \<and>
   (st \<noteq> 204 \<longrightarrow>
      fst (deleteDocument i (Reply (Some (d # ds)) e) r_remove (Status st p) s) = RetFalse \<and>
      raw_documents (snd (deleteDocument i (Reply (Some (d # ds)) e) r_remove (Status st p) s)) =
        raw_documents s) \<and>
   raw_documents (snd (deleteDocument i (Reply (Some (d # ds)) e) r_remove (StatusThrows e') s)) =
     raw_documents s \<and>
   requests (snd (deleteDocument i (Reply (Some (d # ds)) e) r_remove r_row s)) =
     requests s @ [SelectDocument i, StorageRemove [url d], DeleteDocumentRow (doc_id d)] \<and>
   ErrObj None \<in> set (console (snd (deleteDocument i (Reply (Some (d # ds)) e)
      (Reply None err) r_row s))) \<and>
   ErrObj None \<in> set (console (snd (deleteDocument i (Reply (Some (d # ds)) e)
      (Throws e') r_row s)))"
proof (intro conjI impI)
  let ?s' = "snd (deleteDocument i (Reply (Some (d # ds)) e) r_remove (Status 204 p) s)"
  show "fst (deleteDocument i (Reply (Some (d # ds)) e) r_remove (Status 204 p) s) = RetTrue"
    by (rule deleteDocument_204)
  have stored: "raw_documents ?s' = filter (\<lambda>x. doc_id x \<noteq> i) (documents s)"
    by (rule deleteDocument_204)
  have "map doc_id (raw_documents ?s') = filter (\<lambda>j. j \<noteq> i) (map doc_id (documents s))"
    by (simp add: stored filter_map comp_def)
  then show ids: "map doc_id (raw_documents ?s') = filter (\<lambda>j. j \<noteq> i) (map doc_id (raw_documents s))"
    by (simp add: doc_id_documents)
  show "length (raw_documents ?s') + count_list (map doc_id (raw_documents s)) i =
      length (raw_documents s)"
  proof -
    have "length (raw_documents ?s') = length (map doc_id (raw_documents ?s'))"
      by simp
    also have "\<dots> = length (filter (\<lambda>j. j \<noteq> i) (map doc_id (raw_documents s)))"
      by (simp only: ids)
    finally show ?thesis
      using length_filter_count [of i "map doc_id (raw_documents s)"] by simp
  qed
  show "map without_labels (raw_documents ?s') =
      map without_labels (filter (\<lambda>x. doc_id x \<noteq> i) (raw_documents s))"
    by (simp add: stored without_labels_documents)
  show "fst (deleteDocument i (Reply (Some (d # ds)) e) r_remove (Status st p) s) = RetFalse"
    if "st \<noteq> 204"
    using that by (simp add: deleteDocument_def Let_def case_prod_beta)
  show "raw_documents (snd (deleteDocument i (Reply (Some (d # ds)) e) r_remove (Status st p) s)) =
        raw_documents s"
    if "st \<noteq> 204"
    using that by (rule deleteDocument_kept)
  show "raw_documents (snd (deleteDocument i (Reply (Some (d # ds)) e) r_remove (StatusThrows e') s)) =
     raw_documents s"
    by (rule deleteDocument_kept)
  show "requests (snd (deleteDocument i (Reply (Some (d # ds)) e) r_remove r_row s)) =
     requests s @ [SelectDocument i, StorageRemove [url d], DeleteDocumentRow (doc_id d)]"
    by (rule deleteDocument_requests)
  show "ErrObj None \<in> set (console (snd (deleteDocument i (Reply (Some (d # ds)) e)
      (Reply None err) r_row s)))"
    by (rule deleteDocument_logs_file_failure)
  show "ErrObj None \<in> set (console (snd (deleteDocument i (Reply (Some (d # ds)) e)
      (Throws e') r_row s)))"
    by (rule deleteDocument_logs_file_failure)
qed

lemma example_document_fields [simp]:
  "doc_id (example_document i tgs cat) = i"
  "tags (example_document i tgs cat) = tgs"
  "category (example_document i tgs cat) = cat"
  "url (example_document i tgs cat) = ''public/report''"
  by (simp_all add: example_document_def)

lemma labelled_store_raw:
  "raw_documents labelled_store =
     [example_document ''1'' [''a''] (Some ''c''), example_document ''2'' [''a''] (Some ''c'')]"
  by (simp add: labelled_store_eval)

lemma labelled_store_labels:
  "tagStore_tags labelled_store = [\<lparr> slug = ''a'', label_name = ''Alpha'' \<rparr>]"
  "categoryStore_categories labelled_store = [\<lparr> slug = ''c'', label_name = ''Contracts'' \<rparr>]"
  by (simp_all add: labelled_store_eval init_def)

lemma twice_loaded_store_raw:
  "raw_documents twice_loaded_store =
     [example_document ''1'' [''a''] (Some ''c''), example_document ''2'' [''a''] (Some ''c''),
      example_document ''1'' [''a''] (Some ''c'')]"
  by (simp add: twice_loaded_store_def getDocuments_def getDocuments_end_def labelled_store_raw)

text \<open>An instance of the above: document 2 of two, its file removal failing.\<close>

theorem deleteDocument_witness:
  "(404 :: int) \<noteq> 204 \<and>
   map doc_id (raw_documents labelled_store) = [''1'', ''2''] \<and>
   count_list (map doc_id (raw_documents labelled_store)) ''2'' = 1 \<and>
   fst (deleteDocument ''2''
     (Reply (Some [example_document ''2'' [''a''] (Some ''c'')]) None)
     (Reply None (Some (ErrObj (Some ''Object not found'')))) (Status 204 None)
     labelled_store) = RetTrue \<and>
   map doc_id (raw_documents (snd (deleteDocument ''2''
     (Reply (Some [example_document ''2'' [''a''] (Some ''c'')]) None)
     (Reply None (Some (ErrObj (Some ''Object not found'')))) (Status 204 None)
     labelled_store))) = [''1''] \<and>
   fst (deleteDocument ''2''
     (Reply (Some [example_document ''2'' [''a''] (Some ''c'')]) None)
     (Reply None (Some (ErrObj (Some ''Object not found'')))) (Status 404 None)
     labelled_store) = RetFalse \<and>
   raw_documents (snd (deleteDocument ''2''
     (Reply (Some [example_document ''2'' [''a''] (Some ''c'')]) None)
     (Reply None (Some (ErrObj (Some ''Object not found'')))) (Status 404 None)
     labelled_store)) = raw_documents labelled_store"
  using deleteDocument_removes_matching_entries
      [where i = "''2''" and d = "example_document ''2'' [''a''] (Some ''c'')" and ds = "[]"
         and e = None and r_remove = "Reply None (Some (ErrObj (Some ''Object not found'')))"
         and p = None and s = labelled_store and st = 404 and e' = "ErrObj None"
         and r_row = "Status 204 None" and err = None]
  by (simp add: labelled_store_raw)

text \<open>
  Claim C8 as first stated fails. When the collection holds document 1 twice (the same
  page was fetched again), one successful \<^verbatim>\<open>deleteDocument("1")\<close> removes both entries,
  not one. And in the labelled store, where every id occurs once, what is left after the
  call is not the former collection without the entry: the entry of document 2 is not
  the one that was stored.
\<close>

theorem deleteDocument_removes_more_than_one_entry:
  "map doc_id (raw_documents twice_loaded_store) = [''1'', ''2'', ''1''] \<and>
   fst (deleteDocument ''1'' (Reply (Some [example_document ''1'' [''a''] (Some ''c'')]) None)
          (Reply (Some [''public/report'']) None) (Status 204 None) twice_loaded_store) =
     RetTrue \<and>
   map doc_id (raw_documents (snd (deleteDocument ''1''
          (Reply (Some [example_document ''1'' [''a''] (Some ''c'')]) None)
          (Reply (Some [''public/report'']) None) (Status 204 None) twice_loaded_store))) =
     [''2''] \<and>
   raw_documents (snd (deleteDocument ''1''
          (Reply (Some [example_document ''1'' [''a''] (Some ''c'')]) None)
          (Reply (Some [''public/report'']) None) (Status 204 None) labelled_store)) \<noteq>
     filter (\<lambda>x. doc_id x \<noteq> ''1'') (raw_documents labelled_store)"
proof (intro conjI)
  show "map doc_id (raw_documents twice_loaded_store) = [''1'', ''2'', ''1'']"
    by (simp add: twice_loaded_store_raw)
  show "fst (deleteDocument ''1'' (Reply (Some [example_document ''1'' [''a''] (Some ''c'')]) None)
          (Reply (Some [''public/report'']) None) (Status 204 None) twice_loaded_store) =
     RetTrue"
    by (rule deleteDocument_204)
  show "map doc_id (raw_documents (snd (deleteDocument ''1''
          (Reply (Some [example_document ''1'' [''a''] (Some ''c'')]) None)
          (Reply (Some [''public/report'']) None) (Status 204 None) twice_loaded_store))) =
     [''2'']"
    by (simp add: deleteDocument_204 documents_def twice_loaded_store_raw)
  show "raw_documents (snd (deleteDocument ''1''
          (Reply (Some [example_document ''1'' [''a''] (Some ''c'')]) None)
          (Reply (Some [''public/report'']) None) (Status 204 None) labelled_store)) \<noteq>
     filter (\<lambda>x. doc_id x \<noteq> ''1'') (raw_documents labelled_store)"
    by (simp add: deleteDocument_204 documents_def labelled_store_raw labelled_store_labels
        resolve_tag_def resolve_category_def example_document_def)
qed

section \<open>Stored slugs\<close>

text \<open>
  Claim C2, at the input on which the code departs from it. The tag store names the slug
  \<^verbatim>\<open>a\<close> \<^verbatim>\<open>Alpha\<close> and the category store names \<^verbatim>\<open>c\<close> \<^verbatim>\<open>Contracts\<close>; the collection holds
  documents 1 and 2, both stored with the slugs. After a successful \<^verbatim>\<open>deleteDocument("1")\<close>
  the stored entry of document 2 holds the display names: the list that is filtered and
  written back to \<^verbatim>\<open>_documents\<close> is the derived view \<^verbatim>\<open>documents\<close>.
\<close>

theorem deleteDocument_stores_display_names:
  "raw_documents labelled_store =
     [example_document ''1'' [''a''] (Some ''c''), example_document ''2'' [''a''] (Some ''c'')] \<and>
   fst (deleteDocument ''1'' (Reply (Some [example_document ''1'' [''a''] (Some ''c'')]) None)
          (Reply (Some [''public/report'']) None) (Status 204 None) labelled_store) = RetTrue \<and>
   raw_documents (snd (deleteDocument ''1''
          (Reply (Some [example_document ''1'' [''a''] (Some ''c'')]) None)
          (Reply (Some [''public/report'']) None) (Status 204 None) labelled_store)) =
     [example_document ''2'' [''Alpha''] (Some ''Contracts'')]"
  by (simp add: labelled_store_eval deleteDocument_204 documents_def init_def
      resolve_tag_def resolve_category_def example_document_def)

section \<open>The keys of the error map\<close>

lemma keys_ok_update:
  "k = ''email'' \<or> k = ''document'' \<Longrightarrow>
   list_all (\<lambda>k. k = ''email'' \<or> k = ''document'') (map fst (AList.update k v al)) =
   list_all (\<lambda>k. k = ''email'' \<or> k = ''document'') (map fst al)"
  by (induction al) auto

lemma keys_ok_handleDocumentError [simp]: "keys_ok (handleDocumentError e s) = keys_ok s"
  by (simp add: handleDocumentError_def keys_ok_def Let_def keys_ok_update)

lemma keys_ok_report_if_error [simp]: "keys_ok (report_if_error err s) = keys_ok s"
  by (cases err) simp_all

lemma keys_ok_primitives [simp]:
  "keys_ok (init user tgs cats)"
  "keys_ok (dispatch q s) = keys_ok s"
  "keys_ok (watch_documents s) = keys_ok s"
  "keys_ok (assign_documents ds s) = keys_ok s"
  "keys_ok (resetErrors s)"
  by (simp_all add: keys_ok_def init_def)

lemma keys_ok_fields [simp]:
  "keys_ok (s\<lparr> loadingAll := b \<rparr>) = keys_ok s"
  "keys_ok (s\<lparr> loadingSingle := b \<rparr>) = keys_ok s"
  "keys_ok (s\<lparr> loadingNextPage := b \<rparr>) = keys_ok s"
  "keys_ok (s\<lparr> uploading := b \<rparr>) = keys_ok s"
  "keys_ok (s\<lparr> error := c \<rparr>) = keys_ok s"
  "keys_ok (s\<lparr> toasts := ts \<rparr>) = keys_ok s"
  "keys_ok (s\<lparr> params := prm \<rparr>) = keys_ok s"
  "keys_ok (s\<lparr> pageNumber := n \<rparr>) = keys_ok s"
  "keys_ok (s\<lparr> totalDocuments := tot \<rparr>) = keys_ok s"
  "keys_ok (s\<lparr> limitReached := b \<rparr>) = keys_ok s"
  "keys_ok (s\<lparr> auth_user := usr \<rparr>) = keys_ok s"
  "keys_ok (s\<lparr> tagStore_tags := tgs, categoryStore_categories := cats \<rparr>) = keys_ok s"
  "keys_ok (s\<lparr> errors := AList.update ''document'' v (errors s') \<rparr>) = keys_ok s'"
  by (simp_all add: keys_ok_def keys_ok_update)

lemma keys_ok_getDocument [simp]: "keys_ok (snd (getDocument i r s))"
  by (simp add: getDocument_def Let_def split: reply.splits option.splits list.splits)

lemma keys_ok_collaborators [simp]:
  "keys_ok (insertCollaborators_end r s) = keys_ok s"
  "keys_ok (insertCollaborators_begin i cs s) = keys_ok s"
  "keys_ok (snd (updateCollaborators i cs rd ri s)) = keys_ok s"
  by (simp_all add: insertCollaborators_end_def insertCollaborators_begin_def
      updateCollaborators_def insertCollaborators_def Let_def
      split: reply.splits status_reply.splits)

lemma keys_ok_files [simp]:
  "keys_ok (snd (updateFile u f r s)) = keys_ok s"
  "keys_ok (snd (deleteFile u r' s)) = keys_ok s"
  "keys_ok (snd (uploadFile g fl r s)) = keys_ok s"
  "keys_ok (snd (getDocumentPublicUrl u r s)) = keys_ok s"
  "keys_ok (openDocument u r s) = keys_ok s"
  by (simp_all add: updateFile_def deleteFile_def uploadFile_def getDocumentPublicUrl_def
      openDocument_def Let_def split: reply.splits option.splits)

lemma keys_ok_replace_file [simp]: "keys_ok (snd (replace_file d fl r s)) = keys_ok s"
  by (simp add: replace_file_def case_prod_beta split: option.splits)

lemma keys_ok_updateDocument [simp]:
  "keys_ok (snd (updateDocument i form fl cs now r r_file r_row r_delete r_ins s))"
  by (simp add: updateDocument_def Let_def case_prod_beta
      split: ret.splits status_reply.splits option.splits)

lemma keys_ok_deleteDocument [simp]: "keys_ok (snd (deleteDocument i r r_file r_row s))"
  by (simp add: deleteDocument_def Let_def case_prod_beta
      split: ret.splits status_reply.splits option.splits)

lemma keys_ok_createDocument [simp]:
  "keys_ok (snd (createDocument g fl form cs r_up r_ins s)) = keys_ok s"
  by (simp add: createDocument_def Let_def case_prod_beta
      split: ret.splits reply.splits option.splits list.splits)

lemma keys_ok_fetches [simp]:
  "keys_ok (getDocuments_begin s)"
  "keys_ok (getDocuments_end r s) = keys_ok s"
  "keys_ok (getDocumentCount_end c s) = keys_ok s"
  "keys_ok (snd (getUserDocuments crit r s))"
  by (simp_all add: getDocuments_begin_def getDocumentCount_begin_def getDocuments_end_def
      getDocumentCount_end_def getUserDocuments_def Let_def case_prod_beta
      split: reply.splits count_reply.splits option.splits)

lemma keys_ok_params [simp]:
  "keys_ok (nextPage_begin s) = (limitReached s \<longrightarrow> keys_ok s)"
  "keys_ok (resetFilters s)"
  "keys_ok (updateFilters f s)"
  "keys_ok (resetParams s) = keys_ok s"
  "keys_ok (resetDocuments s) = keys_ok s"
  by (simp_all add: nextPage_begin_def resetFilters_def updateFilters_def resetParams_def
      resetDocuments_def Let_def)

text \<open>In every reachable state the error map has no key but \<^verbatim>\<open>email\<close> and \<^verbatim>\<open>document\<close>.\<close>

lemma reachable_keys_ok: "reachable s \<Longrightarrow> keys_ok s"
  by (induction rule: reachable.induct) simp_all

lemma map_of_update_other: "k \<noteq> k' \<Longrightarrow> map_of (AList.update k' v al) k = map_of al k"
  by (simp add: update_conv')

text \<open>
  Claim C10, as amended. The shared error handler writes no key of the error map but
  \<^verbatim>\<open>email\<close>, whatever error it is given: an error that is an object is recorded under
  \<^verbatim>\<open>email\<close> with its message (which may be undefined); an error that is a string, as the
  messages of the status checks are, is not recorded in the map at all (and raises no
  toast): it is only logged to the console, as every error is. The missing-file
  validations of \<^verbatim>\<open>uploadFile\<close> and \<^verbatim>\<open>createDocument\<close> write the key \<^verbatim>\<open>document\<close>. In
  every state the store can reach, the error map has no other key than these two.
\<close>

theorem error_map_keys_are_fixed:
  "errors (handleDocumentError (ErrObj msg) s) = AList.update ''email'' msg (errors s) \<and>
   errors (handleDocumentError (ErrStr x) s) = errors s \<and>
   toasts (handleDocumentError (ErrStr x) s) = toasts s \<and>
   console (handleDocumentError e s) = console s @ [e] \<and>
   (k \<noteq> ''email'' \<longrightarrow>
      map_of (errors (handleDocumentError e s)) k = map_of (errors s) k) \<and>
   errors (snd (uploadFile gen None r_upload s)) =
     AList.update ''document'' (Some ''No file selected'') (errors s) \<and>
   errors (snd (createDocument gen None form cs r_upload r_insert s)) =
     AList.update ''document'' (Some ''Document not added.'') (errors s) \<and>
   (reachable s \<longrightarrow> keys_ok s)"
proof (intro conjI impI)
  show "errors (handleDocumentError (ErrObj msg) s) = AList.update ''email'' msg (errors s)"
    and "errors (handleDocumentError (ErrStr x) s) = errors s"
    and "toasts (handleDocumentError (ErrStr x) s) = toasts s"
    by (simp_all add: handleDocumentError_def Let_def)
  show "console (handleDocumentError e s) = console s @ [e]"
    by simp
  show "map_of (errors (handleDocumentError e s)) k = map_of (errors s) k" if "k \<noteq> ''email''"
    using that by (simp add: handleDocumentError_def Let_def map_of_update_other)
  show "errors (snd (uploadFile gen None r_upload s)) =
     AList.update ''document'' (Some ''No file selected'') (errors s)"
    by (simp add: uploadFile_def)
  show "errors (snd (createDocument gen None form cs r_upload r_insert s)) =
     AList.update ''document'' (Some ''Document not added.'') (errors s)"
    by (simp add: createDocument_def Let_def)
  show "keys_ok s" if "reachable s"
    using that by (rule reachable_keys_ok)
qed

lemma reachable_labelled_store: "reachable labelled_store"
  unfolding labelled_store_def getDocuments_def
  by (intro reachable.intros)

text \<open>An instance of the above: errors of different operations under the one key.\<close>

theorem error_map_keys_witness:
  "''document'' \<noteq> ''email'' \<and> reachable labelled_store \<and>
   errors (snd (getDocument ''1'' (Reply None (Some (ErrObj (Some ''permission denied''))))
     labelled_store)) = [(''email'', Some ''permission denied'')] \<and>
   errors (snd (deleteFile ''public/report'' (Throws (ErrObj (Some ''network down'')))
     labelled_store)) = [(''email'', Some ''network down'')] \<and>
   map_of (errors (handleDocumentError (ErrObj (Some ''network down'')) labelled_store))
     ''document'' = None \<and>
   errors (snd (uploadFile (\<lambda>n. n) None (Reply None None) labelled_store)) =
     [(''document'', Some ''No file selected'')] \<and>
   keys_ok labelled_store"
  using error_map_keys_are_fixed
      [where s = labelled_store and k = "''document''" and msg = "Some ''network down''"
         and e = "ErrObj (Some ''network down'')" and gen = "\<lambda>n. n" and x = "''x''"
         and r_upload = "Reply None None" and form = example_form and cs = "[]"
         and r_insert = "Reply None None"]
    reachable_labelled_store
  by (simp add: labelled_store_eval init_def getDocument_def deleteFile_def
      handleDocumentError_def resetErrors_def dispatch_def Let_def)

text \<open>Claim C10 as first stated fails: the row delete reports status 500, the handler is
  given the message string, and the error map stays empty.\<close>

theorem string_error_is_not_recorded:
  "fst (deleteDocument ''1'' (Reply (Some [example_document ''1'' [''a''] (Some ''c'')]) None)
     (Reply (Some [''public/report'']) None) (Status 500 None) labelled_store) = RetFalse \<and>
   errors (snd (deleteDocument ''1''
     (Reply (Some [example_document ''1'' [''a''] (Some ''c'')]) None)
     (Reply (Some [''public/report'']) None) (Status 500 None) labelled_store)) = [] \<and>
   console (snd (deleteDocument ''1''
     (Reply (Some [example_document ''1'' [''a''] (Some ''c'')]) None)
     (Reply (Some [''public/report'']) None) (Status 500 None) labelled_store)) =
     [ErrStr ''Document not succcessfully deleted''] \<and>
   map_of (errors (handleDocumentError (ErrStr ''Document not succcessfully updated'')
     labelled_store)) ''email'' = None"
  by (simp add: labelled_store_eval init_def deleteDocument_def getDocument_def deleteFile_def
      handleDocumentError_def resetErrors_def dispatch_def Let_def)

end
